theory Spec2Isabelle
  imports Main
begin

section \<open>Python values, dictionaries and exceptions\<close>

text \<open>
  The service template \<^verbatim>\<open>service.py\<close> moves JSON-like Python values between a
  configuration dictionary, the process environment, a workspace REST API and a STAC
  catalog. Values are modelled by \<open>pyval\<close>; a Python \<^verbatim>\<open>dict\<close> whose insertion order
  is observable (it is serialised with \<^verbatim>\<open>json.dumps\<close>) is an association list with
  distinct keys, a dictionary that is only looked up is a map. Floating point numbers
  do not occur in anything the module itself inspects and are left out of \<open>pyval\<close>.
\<close>

datatype pyval =
    PNone
  | PBool bool
  | PInt int
  | PStr string
  | PList "pyval list"
  | PDict "(string \<times> pyval) list"

text \<open>Python's truth value of an object, as tested by \<^verbatim>\<open>if x\<close>, \<^verbatim>\<open>x and y\<close>, \<^verbatim>\<open>x or y\<close>.\<close>

fun truthy :: "pyval \<Rightarrow> bool" where
  "truthy PNone = False"
| "truthy (PBool b) = b"
| "truthy (PInt n) = (n \<noteq> 0)"
| "truthy (PStr s) = (s \<noteq> [])"
| "truthy (PList xs) = (xs \<noteq> [])"
| "truthy (PDict kvs) = (kvs \<noteq> [])"

definition py_or :: "pyval \<Rightarrow> pyval \<Rightarrow> pyval" where
  "py_or a b = (if truthy a then a else b)"

text \<open>\<^verbatim>\<open>d[k] = v\<close> on an insertion-ordered dictionary: an existing key keeps its place.\<close>

fun dict_set :: "(string \<times> pyval) list \<Rightarrow> string \<Rightarrow> pyval \<Rightarrow> (string \<times> pyval) list" where
  "dict_set [] k v = [(k, v)]"
| "dict_set ((k', v') # kvs) k v =
     (if k' = k then (k, v) # kvs else (k', v') # dict_set kvs k v)"

definition dict_get :: "(string \<times> pyval) list \<Rightarrow> string \<Rightarrow> pyval option" where
  "dict_get kvs k = map_of kvs k"

text \<open>
  The exception classes that the module raises, catches or lets through. \<open>isinstance\<close>
  is the subclass test an \<^verbatim>\<open>except C:\<close> clause performs: \<^verbatim>\<open>ScannerError\<close> derives from
  \<^verbatim>\<open>YAMLError\<close>; \<^verbatim>\<open>FileNotFoundError\<close> and \<^verbatim>\<open>NotADirectoryError\<close> derive from
  \<^verbatim>\<open>OSError\<close>, side by side; \<^verbatim>\<open>UnicodeDecodeError\<close> derives from \<^verbatim>\<open>ValueError\<close>. All
  of them derive from \<^verbatim>\<open>Exception\<close>, so \<^verbatim>\<open>except Exception\<close> and a bare \<^verbatim>\<open>except:\<close>
  catch every one.
\<close>

datatype exn =
    KeyError
  | TypeError
  | AttributeError
  | UnboundLocalError
  | StopIteration
  | FileNotFoundError
  | NotADirectoryError
  | OSError
  | ValueError
  | UnicodeDecodeError
  | YAMLError
  | ScannerError
  | ApiException
  | ConfigException
  | DecodeError
  | RequestException
  | JSONDecodeError
  | ClientError
  | PartialCredentialsError

fun isinstance :: "exn \<Rightarrow> exn \<Rightarrow> bool" where
  "isinstance ScannerError YAMLError = True"
| "isinstance FileNotFoundError OSError = True"
| "isinstance NotADirectoryError OSError = True"
| "isinstance UnicodeDecodeError ValueError = True"
| "isinstance e c = (e = c)"

section \<open>Identity extraction\<close>

text \<open>
  \<^verbatim>\<open>
  def get_user_name(decodedJwt) -> str:
      for key in ["username", "user_name", "preferred_username"]:
          if key in decodedJwt:
              return decodedJwt[key]
      return ""
  \<close>
  The loop over the key list is \<open>get_user_name_loop\<close>.
\<close>

fun get_user_name_loop :: "string list \<Rightarrow> (string \<rightharpoonup> pyval) \<Rightarrow> pyval" where
  "get_user_name_loop [] decodedJwt = PStr ''''"
| "get_user_name_loop (key # keys) decodedJwt =
     (case decodedJwt key of
        Some v \<Rightarrow> v
      | None \<Rightarrow> get_user_name_loop keys decodedJwt)"

definition get_user_name :: "(string \<rightharpoonup> pyval) \<Rightarrow> pyval" where
  "get_user_name decodedJwt =
     get_user_name_loop [''username'', ''user_name'', ''preferred_username''] decodedJwt"

section \<open>Loading a YAML file\<close>

text \<open>
  \<^verbatim>\<open>
  def local_get_file(fileName):
      try:
          with open(fileName, "r") as file:
              data = yaml.safe_load(file)
          return data
      except FileNotFoundError:
          return {}
      except yaml.YAMLError:
          return {}
      except yaml.scanner.ScannerError:
          return {}
  \<close>
  The file system and the YAML parser are outside the module: \<open>open_file\<close> gives the
  stream of a file or the exception \<^verbatim>\<open>open\<close> raises, \<open>safe_load\<close> the parsed document
  or the exception raised while the stream is read and parsed (the file is opened in
  text mode, so bytes that do not decode raise \<^verbatim>\<open>UnicodeDecodeError\<close> there). An
  exception matched by no clause propagates.
\<close>

definition local_get_file ::
  "(string \<Rightarrow> exn + string) \<Rightarrow> (string \<Rightarrow> exn + pyval) \<Rightarrow> string \<Rightarrow> exn + pyval" where
  "local_get_file open_file safe_load fileName =
     (case (case open_file fileName of
              Inl e \<Rightarrow> Inl e
            | Inr file \<Rightarrow> safe_load file) of
        Inr data \<Rightarrow> Inr data
      | Inl e \<Rightarrow>
          if isinstance e FileNotFoundError then Inr (PDict [])
          else if isinstance e YAMLError then Inr (PDict [])
          else if isinstance e ScannerError then Inr (PDict [])
          else Inl e)"

section \<open>The collaborators outside the module\<close>

text \<open>
  Everything the module calls but does not define is a field of \<open>ext\<close>: URL parsing,
  the S3 client, pystac's default I/O and deserialisation, the cluster API, the token
  decoder and the HTTP client. Each field returns what the call returns or the exception
  it raises. The HTTP client and the catalog reader see the process environment, which
  is how the proxy setting and the exported credentials reach them.
\<close>

record parsed_url =
  scheme :: string
  netloc :: string
  path :: string

record s3_client =
  region_name :: "string option"
  endpoint_url :: "string option"
  aws_access_key_id :: "string option"
  aws_secret_access_key :: "string option"

record put_request =
  Body :: string
  Bucket :: pyval
  Key :: string
  ContentType :: string

text \<open>
  An HTTP response as \<^verbatim>\<open>requests\<close> presents it: \<open>json_body\<close> is the result of
  \<^verbatim>\<open>response.json()\<close>. \<^verbatim>\<open>Response.ok\<close> is false exactly when \<^verbatim>\<open>raise_for_status()\<close>
  would raise, which is for a status code from 400 to 599.
\<close>

record response =
  status_code :: int
  text_body :: string
  json_body :: "exn + pyval"

definition ok :: "response \<Rightarrow> bool" where
  "ok r = (\<not> (400 \<le> status_code r \<and> status_code r < 600))"


section \<open>STAC objects\<close>

text \<open>
  The pystac classes are outside the module. An \<^verbatim>\<open>Asset\<close> is represented by the
  dictionary \<^verbatim>\<open>to_dict()\<close> returns for it and \<^verbatim>\<open>from_dict\<close> reads back. An \<^verbatim>\<open>Item\<close>
  has the two attributes the module writes, \<open>collection_id\<close> and \<open>assets\<close>, and the rest
  of its serialisation in \<open>item_fields\<close>; \<^verbatim>\<open>clone()\<close> is a deep copy, so on values it
  is the identity. A \<^verbatim>\<open>Collection\<close> of the catalog is its \<^verbatim>\<open>to_dict()\<close> and its self
  link. The key order pystac uses inside a serialised item or asset is not reproduced:
  results are read through \<open>dict_get\<close>.
\<close>

datatype asset = Asset "(string \<times> pyval) list"

fun asset_to_dict :: "asset \<Rightarrow> (string \<times> pyval) list" where
  "asset_to_dict (Asset d) = d"

definition asset_from_dict :: "(string \<times> pyval) list \<Rightarrow> asset" where
  "asset_from_dict d = Asset d"

record item =
  item_fields :: "(string \<times> pyval) list"
  collection_id :: pyval
  assets :: "(string \<times> asset) list"

definition clone :: "item \<Rightarrow> item" where
  "clone i = i"

definition item_to_dict :: "item \<Rightarrow> (string \<times> pyval) list" where
  "item_to_dict i =
     item_fields i
     @ [(''assets'', PDict (map (\<lambda>(k, a). (k, PDict (asset_to_dict a))) (assets i)))]
     @ (if truthy (collection_id i) then [(''collection'', collection_id i)] else [])"

record collection =
  collection_dict :: "(string \<times> pyval) list"
  self_href :: pyval

text \<open>
  What the module asks of the object \<^verbatim>\<open>read_file\<close> returns:
  \<open>all_collections\<close> is the sequence \<^verbatim>\<open>get_all_collections()\<close> yields, or the exception
  raised before the first element; \<open>all_items\<close> is the sequence \<^verbatim>\<open>get_all_items()\<close>
  yields and \<open>all_items_raises\<close> the exception that ends it, if it does not end normally.
\<close>

record catalog =
  all_collections :: "exn + collection list"
  all_items :: "item list"
  all_items_raises :: "exn option"

text \<open>The value of the hook's variable \<^verbatim>\<open>collection\<close> when it is not \<^verbatim>\<open>None\<close>.\<close>

datatype collection_obj = Collection collection | ItemCollection "item list"

record ext =
  urlparse :: "string \<Rightarrow> parsed_url"
  create_client :: "(string \<rightharpoonup> string) \<Rightarrow> s3_client \<Rightarrow> exn option"
  get_object :: "s3_client \<Rightarrow> pyval \<Rightarrow> string \<Rightarrow> exn + string"
  put_object :: "s3_client \<Rightarrow> put_request \<Rightarrow> exn option"
  default_read_text :: "string \<Rightarrow> exn + string"
  default_write_text :: "string \<Rightarrow> string \<Rightarrow> exn option"
  stac_object_from_text :: "string \<Rightarrow> exn + catalog"
  load_incluster_config :: "exn option"
  read_namespaced_config_map :: "string \<Rightarrow> string \<Rightarrow> exn + (string \<rightharpoonup> string) option"
  jwt_decode :: "string \<Rightarrow> exn + (string \<rightharpoonup> pyval)"
  requests_get :: "(string \<rightharpoonup> string) \<Rightarrow> string \<Rightarrow> (string \<times> string) list \<Rightarrow> exn + response"
  requests_post ::
    "(string \<rightharpoonup> string) \<Rightarrow> string \<Rightarrow> pyval \<Rightarrow> (string \<times> string) list \<Rightarrow> exn + response"
  str_other :: "pyval \<Rightarrow> string"
  item_collection_get_self_href :: "exn + pyval"

text \<open>
  \<open>create_client\<close> is the exception, if any, that botocore's \<^verbatim>\<open>create_client\<close> raises
  for the given keyword arguments in the given environment (a key without its secret, an
  endpoint that is no URL); the client it returns otherwise is represented by those
  arguments.
  \<open>str_other\<close> is the text \<^verbatim>\<open>str()\<close> gives for numbers, lists and dictionaries.
  \<open>item_collection_get_self_href\<close> is the outcome of \<^verbatim>\<open>get_self_href()\<close> on an
  \<^verbatim>\<open>ItemCollection\<close> (pystac defines the method on catalogs, collections and items).
\<close>

definition py_str :: "ext \<Rightarrow> pyval \<Rightarrow> string" where
  "py_str x v =
     (case v of
        PStr s \<Rightarrow> s
      | PNone \<Rightarrow> ''None''
      | PBool b \<Rightarrow> (if b then ''True'' else ''False'')
      | _ \<Rightarrow> str_other x v)"

text \<open>\<^verbatim>\<open>v[k]\<close> with a string key, and \<^verbatim>\<open>v.get(k)\<close>, on an arbitrary value.\<close>

definition subscript :: "pyval \<Rightarrow> string \<Rightarrow> exn + pyval" where
  "subscript v k =
     (case v of
        PDict kvs \<Rightarrow> (case dict_get kvs k of None \<Rightarrow> Inl KeyError | Some x \<Rightarrow> Inr x)
      | _ \<Rightarrow> Inl TypeError)"

definition dot_get :: "pyval \<Rightarrow> string \<Rightarrow> exn + pyval" where
  "dot_get v k =
     (case v of
        PDict kvs \<Rightarrow> (case dict_get kvs k of None \<Rightarrow> Inr PNone | Some x \<Rightarrow> Inr x)
      | _ \<Rightarrow> Inl AttributeError)"

text \<open>\<^verbatim>\<open>os.path.join(a, b)\<close> of \<^verbatim>\<open>posixpath\<close>, for two components.\<close>

definition os_path_join :: "string \<Rightarrow> string \<Rightarrow> string" where
  "os_path_join a b =
     (if b \<noteq> [] \<and> hd b = CHR ''/'' then b
      else if a = [] \<or> last a = CHR ''/'' then a @ b
      else a @ ''/'' @ b)"

section \<open>The custom STAC I/O class\<close>

text \<open>
  \<^verbatim>\<open>
  class CustomStacIO(DefaultStacIO):
      def __init__(self):
          self.session = botocore.session.Session()
          self.access_point = None
          if os.environ["AWS_ACCESS_KEY_ID"] and os.environ["AWS_SECRET_ACCESS_KEY"]:
              self.s3_client = self.session.create_client(... region_name, endpoint_url,
                                                          aws_access_key_id, aws_secret_access_key ...)
          else:
              self.s3_client = self.session.create_client(service_name="s3", ...)

      @classmethod
      def set_access_point(cls, value):
          cls.access_point = value
  \<close>
  The attribute \<^verbatim>\<open>access_point\<close> is assigned before the client is created, and the
  constructor returns only if \<^verbatim>\<open>create_client\<close> does not raise.
  An instance carries its own attribute dictionary: \<open>inst_access_point\<close> is \<open>None\<close> when
  the instance has no attribute \<^verbatim>\<open>access_point\<close> of its own and \<open>Some v\<close> when it has one
  with value \<open>v\<close>. The class attribute is kept apart (field \<open>cls_access_point\<close> of the
  world below); \<open>getattr_access_point\<close> is Python's lookup of \<^verbatim>\<open>self.access_point\<close>, the
  instance first and the class second.
\<close>

record stac_io =
  inst_access_point :: "pyval option"
  s3_client :: s3_client

definition CustomStacIO :: "ext \<Rightarrow> (string \<rightharpoonup> string) \<Rightarrow> exn + stac_io" where
  "CustomStacIO x env =
     (let with_keys = \<lparr>region_name = env ''AWS_REGION'',
                       endpoint_url = env ''AWS_S3_ENDPOINT'',
                       aws_access_key_id = env ''AWS_ACCESS_KEY_ID'',
                       aws_secret_access_key = env ''AWS_SECRET_ACCESS_KEY''\<rparr>;
          without_keys = \<lparr>region_name = None, endpoint_url = None,
                          aws_access_key_id = None, aws_secret_access_key = None\<rparr>;
          make = (\<lambda>args. case create_client x env args of
                           Some e \<Rightarrow> Inl e
                         | None \<Rightarrow> Inr \<lparr>inst_access_point = Some PNone, s3_client = args\<rparr>)
      in case env ''AWS_ACCESS_KEY_ID'' of
           None \<Rightarrow> Inl KeyError
         | Some access \<Rightarrow>
             if access \<noteq> [] then
               (case env ''AWS_SECRET_ACCESS_KEY'' of
                  None \<Rightarrow> Inl KeyError
                | Some secret \<Rightarrow> if secret \<noteq> [] then make with_keys else make without_keys)
             else make without_keys)"

definition set_access_point :: "pyval \<Rightarrow> pyval option \<Rightarrow> pyval option" where
  "set_access_point v cls = Some v"

definition getattr_access_point :: "pyval option \<Rightarrow> stac_io \<Rightarrow> exn + pyval" where
  "getattr_access_point cls self =
     (case inst_access_point self of
        Some v \<Rightarrow> Inr v
      | None \<Rightarrow> (case cls of Some v \<Rightarrow> Inr v | None \<Rightarrow> Inl AttributeError))"

text \<open>
  \<^verbatim>\<open>
  def read_text(self, source, *args, **kwargs):
      parsed = urlparse(source)
      bucket = self.access_point or parsed.netloc
      if parsed.scheme == "s3":
          return self.s3_client.get_object(Bucket=bucket, Key=parsed.path[1:])["Body"].read().decode("utf-8")
      else:
          return super().read_text(source, *args, **kwargs)

  def write_text(self, dest, txt, *args, **kwargs):
      parsed = urlparse(dest)
      bucket = self.access_point or parsed.netloc
      if parsed.scheme == "s3":
          self.s3_client.put_object(Body=txt.encode("UTF-8"), Bucket=bucket, Key=parsed.path[1:],
                                    ContentType="application/geo+json")
      else:
          super().write_text(dest, txt, *args, **kwargs)
  \<close>
\<close>

definition read_text :: "ext \<Rightarrow> pyval option \<Rightarrow> stac_io \<Rightarrow> string \<Rightarrow> exn + string" where
  "read_text x cls self source =
     (let parsed = urlparse x source in
      case getattr_access_point cls self of
        Inl e \<Rightarrow> Inl e
      | Inr access_point \<Rightarrow>
          (let bucket = py_or access_point (PStr (netloc parsed)) in
           if scheme parsed = ''s3''
           then get_object x (s3_client self) bucket (drop 1 (path parsed))
           else default_read_text x source))"

definition write_text :: "ext \<Rightarrow> pyval option \<Rightarrow> stac_io \<Rightarrow> string \<Rightarrow> string \<Rightarrow> exn option" where
  "write_text x cls self dest txt =
     (let parsed = urlparse x dest in
      case getattr_access_point cls self of
        Inl e \<Rightarrow> Some e
      | Inr access_point \<Rightarrow>
          (let bucket = py_or access_point (PStr (netloc parsed)) in
           if scheme parsed = ''s3''
           then put_object x (s3_client self)
                  \<lparr>Body = txt, Bucket = bucket, Key = drop 1 (path parsed),
                   ContentType = ''application/geo+json''\<rparr>
           else default_write_text x dest txt))"

section \<open>The execution handler\<close>

text \<open>
  The host runtime passes \<^verbatim>\<open>conf\<close> as a dictionary of sections, each a dictionary of
  strings, and \<^verbatim>\<open>inputs\<close> likewise. The section \<^verbatim>\<open>additional_parameters\<close>, which the
  handler creates when it is missing and fills with values that may be \<^verbatim>\<open>None\<close>, is a
  field of its own: \<open>None\<close> when \<^verbatim>\<open>conf\<close> has no such key.
\<close>

record zoo_conf =
  sections :: "string \<rightharpoonup> (string \<rightharpoonup> string)"
  additional_parameters :: "(string \<rightharpoonup> pyval) option"

text \<open>\<^verbatim>\<open>conf.get(name, {})\<close>, \<^verbatim>\<open>section.get(key, default)\<close> and \<^verbatim>\<open>os.environ.get(key, default)\<close>.\<close>

definition section_get :: "(string \<rightharpoonup> (string \<rightharpoonup> string)) \<Rightarrow> string \<Rightarrow> (string \<rightharpoonup> string)" where
  "section_get c name = (case c name of None \<Rightarrow> Map.empty | Some sec \<Rightarrow> sec)"

definition str_get :: "(string \<rightharpoonup> string) \<Rightarrow> string \<Rightarrow> string \<Rightarrow> string" where
  "str_get sec k d = (case sec k of None \<Rightarrow> d | Some v \<Rightarrow> v)"

definition environ_get :: "(string \<rightharpoonup> string) \<Rightarrow> string \<Rightarrow> pyval \<Rightarrow> pyval" where
  "environ_get env k d = (case env k of None \<Rightarrow> d | Some v \<Rightarrow> PStr v)"

text \<open>
  \<^verbatim>\<open>
  def init_config_defaults(conf):
      if "additional_parameters" not in conf:
          conf["additional_parameters"] = {}
      conf["additional_parameters"]["STAGEIN_AWS_SERVICEURL"] = os.environ.get("STAGEIN_AWS_SERVICEURL", "http://s3-service.zoo.svc.cluster.local:9000")
      ...
      conf["additional_parameters"]["WORKSPACE_DOMAIN"] = os.environ.get("WORKSPACE_DOMAIN", None)
  \<close>
\<close>

definition init_config_defaults :: "(string \<rightharpoonup> string) \<Rightarrow> zoo_conf \<Rightarrow> zoo_conf" where
  "init_config_defaults env c =
     (let ap = (case additional_parameters c of None \<Rightarrow> Map.empty | Some ap \<Rightarrow> ap);
          ap = ap(''STAGEIN_AWS_SERVICEURL'' \<mapsto>
                    environ_get env ''STAGEIN_AWS_SERVICEURL'' (PStr ''http://s3-service.zoo.svc.cluster.local:9000''));
          ap = ap(''STAGEIN_AWS_ACCESS_KEY_ID'' \<mapsto>
                    environ_get env ''STAGEIN_AWS_ACCESS_KEY_ID'' (PStr ''minio-admin''));
          ap = ap(''STAGEIN_AWS_SECRET_ACCESS_KEY'' \<mapsto>
                    environ_get env ''STAGEIN_AWS_SECRET_ACCESS_KEY'' (PStr ''minio-secret-password''));
          ap = ap(''STAGEIN_AWS_REGION'' \<mapsto> environ_get env ''STAGEIN_AWS_REGION'' (PStr ''RegionOne''));
          ap = ap(''STAGEOUT_AWS_SERVICEURL'' \<mapsto>
                    environ_get env ''STAGEOUT_AWS_SERVICEURL'' (PStr ''http://s3-service.zoo.svc.cluster.local:9000''));
          ap = ap(''STAGEOUT_AWS_ACCESS_KEY_ID'' \<mapsto>
                    environ_get env ''STAGEOUT_AWS_ACCESS_KEY_ID'' (PStr ''minio-admin''));
          ap = ap(''STAGEOUT_AWS_SECRET_ACCESS_KEY'' \<mapsto>
                    environ_get env ''STAGEOUT_AWS_SECRET_ACCESS_KEY'' (PStr ''minio-secret-password''));
          ap = ap(''STAGEOUT_AWS_REGION'' \<mapsto> environ_get env ''STAGEOUT_AWS_REGION'' (PStr ''RegionOne''));
          ap = ap(''STAGEOUT_OUTPUT'' \<mapsto> environ_get env ''STAGEOUT_OUTPUT'' (PStr ''eoepca''));
          ap = ap(''STAGEOUT_WORKSPACE'' \<mapsto> environ_get env ''STAGEOUT_WORKSPACE'' (PStr ''default''));
          ap = ap(''STAGEOUT_PULSAR_URL'' \<mapsto> environ_get env ''STAGEOUT_PULSAR_URL'' PNone);
          ap = ap(''STAGEOUT_ACCESS_POINT'' \<mapsto> environ_get env ''STAGEOUT_ACCESS_POINT'' PNone);
          ap = ap(''WORKSPACE_DOMAIN'' \<mapsto> environ_get env ''WORKSPACE_DOMAIN'' PNone)
      in c\<lparr>additional_parameters := Some ap\<rparr>)"

text \<open>
  The attributes of the handler object. \<open>username\<close> is \<open>None\<close> while the object has no
  such attribute (only the pre-execution hook sets it). \<open>feature_collection\<close> is \<open>None\<close>
  for Python's \<^verbatim>\<open>None\<close> and otherwise the JSON document whose \<^verbatim>\<open>json.dumps\<close> text the
  attribute holds; the text \<^verbatim>\<open>{}\<close> is the document \<open>PDict []\<close>.
\<close>

record handler =
  conf :: zoo_conf
  inputs :: "string \<rightharpoonup> (string \<rightharpoonup> string)"
  http_proxy_env :: "string option"
  domain :: string
  workspace_url :: string
  workspace_prefix :: string
  use_workspace :: bool
  workspace_name :: string
  ades_rx_token :: string
  username :: "pyval option"
  feature_collection :: "pyval option"

text \<open>
  \<^verbatim>\<open>
  def __init__(self, conf, inputs):
      self.conf = conf
      self.inputs = inputs
      self.http_proxy_env = os.environ.get("HTTP_PROXY", None)
      eoepca = self.conf.get("eoepca", {})
      self.domain = eoepca.get("domain", "")
      self.workspace_url = eoepca.get("workspace_url", "")
      self.workspace_prefix = eoepca.get("workspace_prefix", "")
      if self.workspace_url and self.workspace_prefix:
          self.use_workspace = True
      else:
          self.use_workspace = False
      self.workspace_name = self.inputs.get("workspace", {}).get("value", "default")
      auth_env = self.conf.get("auth_env", {})
      self.ades_rx_token = auth_env.get("jwt", "")
      self.feature_collection = None
      self.init_config_defaults(self.conf)
  \<close>
\<close>

definition EoepcaCalrissianRunnerExecutionHandler ::
  "(string \<rightharpoonup> string) \<Rightarrow> zoo_conf \<Rightarrow> (string \<rightharpoonup> (string \<rightharpoonup> string)) \<Rightarrow> handler" where
  "EoepcaCalrissianRunnerExecutionHandler env c ins =
     (let eoepca = section_get (sections c) ''eoepca'';
          url = str_get eoepca ''workspace_url'' [];
          prefix = str_get eoepca ''workspace_prefix'' [];
          auth_env = section_get (sections c) ''auth_env''
      in \<lparr>conf = init_config_defaults env c,
          inputs = ins,
          http_proxy_env = env ''HTTP_PROXY'',
          domain = str_get eoepca ''domain'' [],
          workspace_url = url,
          workspace_prefix = prefix,
          use_workspace = (if url \<noteq> [] \<and> prefix \<noteq> [] then True else False),
          workspace_name = str_get (section_get ins ''workspace'') ''value'' ''default'',
          ades_rx_token = str_get auth_env ''jwt'' [],
          username = None,
          feature_collection = None\<rparr>)"

text \<open>\<^verbatim>\<open>self.conf["additional_parameters"][k]\<close>, read and written.\<close>

definition param :: "handler \<Rightarrow> string \<Rightarrow> exn + pyval" where
  "param self k =
     (case additional_parameters (conf self) of
        None \<Rightarrow> Inl KeyError
      | Some ap \<Rightarrow> (case ap k of None \<Rightarrow> Inl KeyError | Some v \<Rightarrow> Inr v))"

definition set_param :: "handler \<Rightarrow> string \<Rightarrow> pyval \<Rightarrow> exn + handler" where
  "set_param self k v =
     (case additional_parameters (conf self) of
        None \<Rightarrow> Inl KeyError
      | Some ap \<Rightarrow> Inr (self\<lparr>conf := (conf self)\<lparr>additional_parameters := Some (ap(k \<mapsto> v))\<rparr>\<rparr>))"

fun set_params :: "(string \<times> pyval) list \<Rightarrow> handler \<Rightarrow> exn option \<times> handler" where
  "set_params [] self = (None, self)"
| "set_params ((k, v) # rest) self =
     (case set_param self k v of
        Inl e \<Rightarrow> (Some e, self)
      | Inr self' \<Rightarrow> set_params rest self')"

section \<open>The world around the handler\<close>

text \<open>
  The state the hooks share with their surroundings: the process environment
  \<^verbatim>\<open>os.environ\<close>, the class attribute \<^verbatim>\<open>CustomStacIO.access_point\<close> (\<open>None\<close> while the
  class has none), the catalog object bound to the post-execution hook's variable
  \<^verbatim>\<open>cat\<close> (\<open>None\<close> while it is unbound), and the log of the calls made to the cluster, the
  workspace API and the object store. Every log entry records the value \<^verbatim>\<open>HTTP_PROXY\<close>
  has in the environment at the moment of the call; an HTTP call also records its outcome.
\<close>

datatype request =
    LoadInclusterConfig
  | ReadNamespacedConfigMap string string
  | ReadFile string
  | Get string "(string \<times> string) list" "exn + response"
  | Post string pyval "(string \<times> string) list" "exn + response"

record call =
  request :: request
  http_proxy :: "string option"

record world =
  environ :: "string \<rightharpoonup> string"
  cls_access_point :: "pyval option"
  cat :: "catalog option"
  calls :: "call list"

definition log_call :: "request \<Rightarrow> world \<Rightarrow> world" where
  "log_call rq w = w\<lparr>calls := calls w @ [\<lparr>request = rq, http_proxy = environ w ''HTTP_PROXY''\<rparr>]\<rparr>"

definition calls_during :: "world \<Rightarrow> world \<Rightarrow> call list" where
  "calls_during w w' = drop (length (calls w)) (calls w')"

text \<open>
  \<^verbatim>\<open>
  def unset_http_proxy_env(self):
      http_proxy = os.environ.pop("HTTP_PROXY", None)

  def restore_http_proxy_env(self):
      if self.http_proxy_env:
          os.environ["HTTP_PROXY"] = self.http_proxy_env
  \<close>
\<close>

definition unset_http_proxy_env :: "world \<Rightarrow> world" where
  "unset_http_proxy_env w = w\<lparr>environ := (environ w)(''HTTP_PROXY'' := None)\<rparr>"

definition restore_http_proxy_env :: "handler \<Rightarrow> world \<Rightarrow> world" where
  "restore_http_proxy_env self w =
     (case http_proxy_env self of
        None \<Rightarrow> w
      | Some v \<Rightarrow> if v \<noteq> [] then w\<lparr>environ := (environ w)(''HTTP_PROXY'' \<mapsto> v)\<rparr> else w)"

section \<open>The pre-execution hook\<close>

text \<open>
  \<^verbatim>\<open>
  config.load_incluster_config()
  v1 = client.CoreV1Api()
  access_point = None
  try:
      configmap = v1.read_namespaced_config_map(name="workspace-config", namespace="ws-" + self.workspace_name)
      access_point = configmap.data.get("S3_BUCKET_WORKSPACE")
  except ApiException as e:
      logger.info(...)
  \<close>
  The cluster API answers with the \<^verbatim>\<open>data\<close> of the config map, which may be \<^verbatim>\<open>None\<close>.
\<close>

definition read_access_point :: "ext \<Rightarrow> handler \<Rightarrow> world \<Rightarrow> (exn + pyval) \<times> world" where
  "read_access_point x self w =
     (let w1 = log_call LoadInclusterConfig w in
      case load_incluster_config x of
        Some e \<Rightarrow> (Inl e, w1)
      | None \<Rightarrow>
          (let namespace = ''ws-'' @ workspace_name self;
               w2 = log_call (ReadNamespacedConfigMap ''workspace-config'' namespace) w1
           in case read_namespaced_config_map x ''workspace-config'' namespace of
                Inl e \<Rightarrow> if isinstance e ApiException then (Inr PNone, w2) else (Inl e, w2)
              | Inr None \<Rightarrow> (Inl AttributeError, w2)
              | Inr (Some data) \<Rightarrow>
                  (Inr (case data ''S3_BUCKET_WORKSPACE'' of None \<Rightarrow> PNone | Some v \<Rightarrow> PStr v), w2)))"

text \<open>
  \<^verbatim>\<open>
  if self.ades_rx_token:
      self.username = self.get_user_name(jwt.decode(self.ades_rx_token, options={"verify_signature": False}))
  \<close>
\<close>

definition decode_token :: "ext \<Rightarrow> handler \<Rightarrow> exn + handler" where
  "decode_token x self =
     (if ades_rx_token self \<noteq> [] then
        (case jwt_decode x (ades_rx_token self) of
           Inl e \<Rightarrow> Inl e
         | Inr decodedJwt \<Rightarrow> Inr (self\<lparr>username := Some (get_user_name decodedJwt)\<rparr>))
      else Inr self)"

text \<open>
  \<^verbatim>\<open>
  storage_credentials = workspace_response["storage"]["credentials"]
  self.conf["additional_parameters"]["STAGEOUT_AWS_SERVICEURL"] = storage_credentials.get("endpoint")
  self.conf["additional_parameters"]["STAGEOUT_AWS_ACCESS_KEY_ID"] = storage_credentials.get("access")
  self.conf["additional_parameters"]["STAGEOUT_AWS_SECRET_ACCESS_KEY"] = storage_credentials.get("secret")
  self.conf["additional_parameters"]["STAGEOUT_AWS_REGION"] = storage_credentials.get("region")
  self.conf["additional_parameters"]["STAGEOUT_OUTPUT"] = storage_credentials.get("bucketname")
  \<close>
  \<open>copy_credentials\<close> runs the assignments in order; each evaluates its right-hand side,
  then the subscript on the left. \<open>conf\<close> is changed in place, so the assignments made
  before an exception stay.
\<close>

definition credential_fields :: "(string \<times> string) list" where
  "credential_fields =
     [(''STAGEOUT_AWS_SERVICEURL'', ''endpoint''),
      (''STAGEOUT_AWS_ACCESS_KEY_ID'', ''access''),
      (''STAGEOUT_AWS_SECRET_ACCESS_KEY'', ''secret''),
      (''STAGEOUT_AWS_REGION'', ''region''),
      (''STAGEOUT_OUTPUT'', ''bucketname'')]"

fun copy_credentials :: "(string \<times> string) list \<Rightarrow> pyval \<Rightarrow> handler \<Rightarrow> exn option \<times> handler" where
  "copy_credentials [] storage_credentials self = (None, self)"
| "copy_credentials ((k, field) # rest) storage_credentials self =
     (case dot_get storage_credentials field of
        Inl e \<Rightarrow> (Some e, self)
      | Inr v \<Rightarrow>
          (case set_param self k v of
             Inl e \<Rightarrow> (Some e, self)
           | Inr self' \<Rightarrow> copy_credentials rest storage_credentials self'))"

text \<open>
  \<^verbatim>\<open>
  if self.use_workspace:
      uri_for_request = f"workspaces/{self.workspace_prefix}-{self.username}"
      workspace_api_endpoint = os.path.join(self.workspace_url, uri_for_request)
      headers = {"accept": "application/json", "Authorization": f"Bearer {self.ades_rx_token}"}
      get_workspace_details_response = requests.get(workspace_api_endpoint, headers=headers)
      if get_workspace_details_response.ok:
          workspace_response = get_workspace_details_response.json()
          ... (the assignments above)
      else:
          self.use_workspace = False
  \<close>
\<close>

definition workspace_api_endpoint :: "ext \<Rightarrow> handler \<Rightarrow> pyval \<Rightarrow> string" where
  "workspace_api_endpoint x self user =
     os_path_join (workspace_url self)
       (''workspaces/'' @ workspace_prefix self @ ''-'' @ py_str x user)"

definition get_headers :: "handler \<Rightarrow> (string \<times> string) list" where
  "get_headers self =
     [(''accept'', ''application/json''), (''Authorization'', ''Bearer '' @ ades_rx_token self)]"

definition lookup_storage_details :: "ext \<Rightarrow> handler \<Rightarrow> world \<Rightarrow> exn option \<times> handler \<times> world" where
  "lookup_storage_details x self w =
     (if use_workspace self then
        (case username self of
           None \<Rightarrow> (Some AttributeError, self, w)
         | Some user \<Rightarrow>
             (let url = workspace_api_endpoint x self user;
                  headers = get_headers self;
                  get_workspace_details_response = requests_get x (environ w) url headers;
                  w1 = log_call (Get url headers get_workspace_details_response) w
              in case get_workspace_details_response of
                   Inl e \<Rightarrow> (Some e, self, w1)
                 | Inr r \<Rightarrow>
                     if ok r then
                       (case json_body r of
                          Inl e \<Rightarrow> (Some e, self, w1)
                        | Inr workspace_response \<Rightarrow>
                            (case subscript workspace_response ''storage'' of
                               Inl e \<Rightarrow> (Some e, self, w1)
                             | Inr storage \<Rightarrow>
                                 (case subscript storage ''credentials'' of
                                    Inl e \<Rightarrow> (Some e, self, w1)
                                  | Inr storage_credentials \<Rightarrow>
                                      (case copy_credentials credential_fields storage_credentials self of
                                         (r', self') \<Rightarrow> (r', self', w1)))))
                     else (None, self\<lparr>use_workspace := False\<rparr>, w1)))
      else (None, self, w))"

text \<open>
  \<^verbatim>\<open>
  lenv = self.conf.get("lenv", {})
  self.conf["additional_parameters"]["collection_id"] = lenv.get("usid", "")
  self.conf["additional_parameters"]["process"] = "processing-results"
  self.conf["additional_parameters"]["STAGEOUT_WORKSPACE"] = self.workspace_name
  self.conf["additional_parameters"]["STAGEOUT_ACCESS_POINT"] = access_point
  \<close>
\<close>

definition set_execution_parameters :: "handler \<Rightarrow> pyval \<Rightarrow> exn option \<times> handler" where
  "set_execution_parameters self access_point =
     (let lenv = section_get (sections (conf self)) ''lenv'' in
      set_params
        [(''collection_id'', PStr (str_get lenv ''usid'' [])),
         (''process'', PStr ''processing-results''),
         (''STAGEOUT_WORKSPACE'', PStr (workspace_name self)),
         (''STAGEOUT_ACCESS_POINT'', access_point)]
        self)"

text \<open>
  The body of the \<^verbatim>\<open>try\<close> statement of \<^verbatim>\<open>pre_execution_hook\<close>, from
  \<^verbatim>\<open>self.unset_http_proxy_env()\<close> on. The result is the exception that leaves the body,
  if any, with the handler and the world as they are at that point.
\<close>

definition pre_execution_body :: "ext \<Rightarrow> handler \<Rightarrow> world \<Rightarrow> exn option \<times> handler \<times> world" where
  "pre_execution_body x self w =
     (case read_access_point x self (unset_http_proxy_env w) of
        (Inl e, w1) \<Rightarrow> (Some e, self, w1)
      | (Inr access_point, w1) \<Rightarrow>
          (case decode_token x self of
             Inl e \<Rightarrow> (Some e, self, w1)
           | Inr self1 \<Rightarrow>
               (case lookup_storage_details x self1 w1 of
                  (Some e, self2, w2) \<Rightarrow> (Some e, self2, w2)
                | (None, self2, w2) \<Rightarrow>
                    (case set_execution_parameters self2 access_point of
                       (r, self3) \<Rightarrow> (r, self3, w2)))))"

text \<open>
  \<^verbatim>\<open>
  def pre_execution_hook(self):
      try:
          ...
      except Exception as e:
          logger.error(...)
          raise(e)
      finally:
          self.restore_http_proxy_env()
  \<close>
  The \<^verbatim>\<open>except\<close> clause raises the exception again; the \<^verbatim>\<open>finally\<close> clause runs on
  both ways out.
\<close>

definition pre_execution_hook :: "ext \<Rightarrow> handler \<Rightarrow> world \<Rightarrow> exn option \<times> handler \<times> world" where
  "pre_execution_hook x self w =
     (case pre_execution_body x self w of
        (r, self', w') \<Rightarrow> (r, self', restore_http_proxy_env self' w'))"

section \<open>The post-execution hook\<close>

text \<open>
  \<^verbatim>\<open>
  os.environ["AWS_S3_ENDPOINT"] = self.conf["additional_parameters"]["STAGEOUT_AWS_SERVICEURL"]
  os.environ["AWS_ACCESS_KEY_ID"] = self.conf["additional_parameters"]["STAGEOUT_AWS_ACCESS_KEY_ID"]
  os.environ["AWS_SECRET_ACCESS_KEY"] = self.conf["additional_parameters"]["STAGEOUT_AWS_SECRET_ACCESS_KEY"]
  os.environ["AWS_REGION"] = self.conf["additional_parameters"]["STAGEOUT_AWS_REGION"]
  os.environ["STAGEOUT_PULSAR_URL"] = self.conf["additional_parameters"]["STAGEOUT_PULSAR_URL"]
  os.environ["WORKSPACE_DOMAIN"] = self.conf["additional_parameters"]["WORKSPACE_DOMAIN"]
  os.environ["STAGEOUT_ACCESS_POINT"] = self.conf["additional_parameters"]["STAGEOUT_ACCESS_POINT"]
  \<close>
  \<^verbatim>\<open>os.environ\<close> accepts strings only: any other value raises \<^verbatim>\<open>TypeError\<close>.
\<close>

definition exported_variables :: "(string \<times> string) list" where
  "exported_variables =
     [(''AWS_S3_ENDPOINT'', ''STAGEOUT_AWS_SERVICEURL''),
      (''AWS_ACCESS_KEY_ID'', ''STAGEOUT_AWS_ACCESS_KEY_ID''),
      (''AWS_SECRET_ACCESS_KEY'', ''STAGEOUT_AWS_SECRET_ACCESS_KEY''),
      (''AWS_REGION'', ''STAGEOUT_AWS_REGION''),
      (''STAGEOUT_PULSAR_URL'', ''STAGEOUT_PULSAR_URL''),
      (''WORKSPACE_DOMAIN'', ''WORKSPACE_DOMAIN''),
      (''STAGEOUT_ACCESS_POINT'', ''STAGEOUT_ACCESS_POINT'')]"

fun export_env :: "(string \<times> string) list \<Rightarrow> handler \<Rightarrow> world \<Rightarrow> exn option \<times> world" where
  "export_env [] self w = (None, w)"
| "export_env ((var, k) # rest) self w =
     (case param self k of
        Inl e \<Rightarrow> (Some e, w)
      | Inr (PStr s) \<Rightarrow> export_env rest self (w\<lparr>environ := (environ w)(var \<mapsto> s)\<rparr>)
      | Inr _ \<Rightarrow> (Some TypeError, w))"

text \<open>
  \<^verbatim>\<open>
  try:
      s3_path = output["StacCatalogUri"]
      if not s3_path.startswith("s3://"):
          s3_path = "s3://" + s3_path
      cat = read_file( s3_path )
  except Exception as e:
      logger.error(f"Exception: {e}")
  \<close>
  pystac's \<^verbatim>\<open>read_file\<close> takes a fresh instance of the default I/O class, which is
  \<open>CustomStacIO\<close>, reads the text with it and builds the object. When anything in the
  \<^verbatim>\<open>try\<close> raises, \<^verbatim>\<open>cat\<close> stays unbound.
\<close>

definition startswith :: "string \<Rightarrow> string \<Rightarrow> bool" where
  "startswith s p = (take (length p) s = p)"

definition read_file :: "ext \<Rightarrow> world \<Rightarrow> string \<Rightarrow> exn + catalog" where
  "read_file x w href =
     (case CustomStacIO x (environ w) of
        Inl e \<Rightarrow> Inl e
      | Inr stac_io \<Rightarrow>
          (case read_text x (cls_access_point w) stac_io href of
             Inl e \<Rightarrow> Inl e
           | Inr txt \<Rightarrow> stac_object_from_text x txt))"

definition read_catalog :: "ext \<Rightarrow> (string \<rightharpoonup> string) \<Rightarrow> world \<Rightarrow> world" where
  "read_catalog x output w =
     (case output ''StacCatalogUri'' of
        None \<Rightarrow> w\<lparr>cat := None\<rparr>
      | Some uri \<Rightarrow>
          (let s3_path = (if \<not> startswith uri ''s3://'' then ''s3://'' @ uri else uri);
               w1 = log_call (ReadFile s3_path) w
           in case read_file x w s3_path of
                Inl e \<Rightarrow> w1\<lparr>cat := None\<rparr>
              | Inr c \<Rightarrow> w1\<lparr>cat := Some c\<rparr>))"

text \<open>
  \<^verbatim>\<open>collection = next(cat.get_all_collections())\<close>: an unbound \<^verbatim>\<open>cat\<close> raises
  \<^verbatim>\<open>UnboundLocalError\<close>, an empty sequence raises \<^verbatim>\<open>StopIteration\<close>.
\<close>

definition first_collection :: "catalog option \<Rightarrow> exn + collection" where
  "first_collection c =
     (case c of
        None \<Rightarrow> Inl UnboundLocalError
      | Some ct \<Rightarrow>
          (case all_collections ct of
             Inl e \<Rightarrow> Inl e
           | Inr [] \<Rightarrow> Inl StopIteration
           | Inr (col # _) \<Rightarrow> Inr col))"

text \<open>
  \<^verbatim>\<open>
  items=cat.get_all_items()
  itemFinal=[]
  for i in items:
      for a in i.assets.keys():
          cDict=i.assets[a].to_dict()
          cDict["storage:platform"]="EOEPCA"
          cDict["storage:requester_pays"]=False
          cDict["storage:tier"]="Standard"
          cDict["storage:region"]=self.conf["additional_parameters"]["STAGEOUT_AWS_REGION"]
          cDict["storage:endpoint"]=self.conf["additional_parameters"]["STAGEOUT_AWS_SERVICEURL"]
          i.assets[a]=i.assets[a].from_dict(cDict)
      i.collection_id=collection_id
      itemFinal+=[i.clone()]
  collection = ItemCollection(items=itemFinal)
  \<close>
  \<open>annotate_asset\<close> is the body of the inner loop on one asset, \<open>assets_loop\<close> the inner
  loop over the keys, \<open>items_loop\<close> the outer loop. The items are objects of the catalog
  and are changed in place: \<open>items_loop\<close> returns the exception that stops it, if any, the
  items as the loop leaves them, and \<^verbatim>\<open>itemFinal\<close>.
\<close>

definition annotate_asset :: "handler \<Rightarrow> asset \<Rightarrow> exn + asset" where
  "annotate_asset self a =
     (let cDict = asset_to_dict a;
          cDict = dict_set cDict ''storage:platform'' (PStr ''EOEPCA'');
          cDict = dict_set cDict ''storage:requester_pays'' (PBool False);
          cDict = dict_set cDict ''storage:tier'' (PStr ''Standard'')
      in case param self ''STAGEOUT_AWS_REGION'' of
           Inl e \<Rightarrow> Inl e
         | Inr region \<Rightarrow>
             (case param self ''STAGEOUT_AWS_SERVICEURL'' of
                Inl e \<Rightarrow> Inl e
              | Inr endpoint \<Rightarrow>
                  Inr (asset_from_dict
                         (dict_set (dict_set cDict ''storage:region'' region)
                            ''storage:endpoint'' endpoint))))"

definition assets_put :: "(string \<times> asset) list \<Rightarrow> string \<Rightarrow> asset \<Rightarrow> (string \<times> asset) list" where
  "assets_put assts a v = map (\<lambda>(k, old). if k = a then (k, v) else (k, old)) assts"

fun assets_loop ::
  "handler \<Rightarrow> string list \<Rightarrow> (string \<times> asset) list \<Rightarrow> exn option \<times> (string \<times> asset) list" where
  "assets_loop self [] assts = (None, assts)"
| "assets_loop self (a # keys) assts =
     (case map_of assts a of
        None \<Rightarrow> (Some KeyError, assts)
      | Some old \<Rightarrow>
          (case annotate_asset self old of
             Inl e \<Rightarrow> (Some e, assts)
           | Inr new \<Rightarrow> assets_loop self keys (assets_put assts a new)))"

fun items_loop :: "handler \<Rightarrow> pyval \<Rightarrow> item list \<Rightarrow> exn option \<times> item list \<times> item list" where
  "items_loop self cid [] = (None, [], [])"
| "items_loop self cid (i # items) =
     (case assets_loop self (map fst (assets i)) (assets i) of
        (Some e, assts) \<Rightarrow> (Some e, i\<lparr>assets := assts\<rparr> # items, [])
      | (None, assts) \<Rightarrow>
          (let i' = i\<lparr>assets := assts, collection_id := cid\<rparr> in
           case items_loop self cid items of
             (r, items', itemFinal) \<Rightarrow> (r, i' # items', clone i' # itemFinal)))"

definition collection_from_items :: "handler \<Rightarrow> pyval \<Rightarrow> world \<Rightarrow> (exn + collection_obj) \<times> world" where
  "collection_from_items self cid w =
     (case cat w of
        None \<Rightarrow> (Inl UnboundLocalError, w)
      | Some ct \<Rightarrow>
          (case items_loop self cid (all_items ct) of
             (r, items', itemFinal) \<Rightarrow>
               (let w' = w\<lparr>cat := Some (ct\<lparr>all_items := items'\<rparr>)\<rparr> in
                case r of
                  Some e \<Rightarrow> (Inl e, w')
                | None \<Rightarrow>
                    (case all_items_raises ct of
                       Some e \<Rightarrow> (Inl e, w')
                     | None \<Rightarrow> (Inr (ItemCollection (map clone itemFinal)), w')))))"

text \<open>
  \<^verbatim>\<open>
  collection = None
  try:
      collection = next(cat.get_all_collections())
  except:
      try:
          ... (the loop above)
      except Exception as e:
          logger.error(...)
  \<close>
\<close>

definition consolidate :: "handler \<Rightarrow> pyval \<Rightarrow> world \<Rightarrow> collection_obj option \<times> world" where
  "consolidate self cid w =
     (case first_collection (cat w) of
        Inr col \<Rightarrow> (Some (Collection col), w)
      | Inl _ \<Rightarrow>
          (case collection_from_items self cid w of
             (Inl _, w') \<Rightarrow> (None, w')
           | (Inr col, w') \<Rightarrow> (Some col, w')))"

text \<open>\<^verbatim>\<open>collection.to_dict()\<close> and \<^verbatim>\<open>collection.get_self_href()\<close> on either kind of object.\<close>

fun to_dict :: "collection_obj \<Rightarrow> (string \<times> pyval) list" where
  "to_dict (Collection col) = collection_dict col"
| "to_dict (ItemCollection items) =
     [(''type'', PStr ''FeatureCollection''),
      (''features'', PList (map (\<lambda>i. PDict (item_to_dict i)) items))]"

fun get_self_href :: "ext \<Rightarrow> collection_obj \<Rightarrow> exn + pyval" where
  "get_self_href x (Collection col) = Inr (self_href col)"
| "get_self_href x (ItemCollection items) = item_collection_get_self_href x"

text \<open>
  \<^verbatim>\<open>
  if self.use_workspace:
      logger.info(f"Register collection in workspace {self.workspace_prefix}-{self.username}")
      headers = {"Accept": "application/json", "Authorization": f"Bearer {self.ades_rx_token}"}
      api_endpoint = f"{self.workspace_url}/workspaces/{self.workspace_prefix}-{self.username}"
      r = requests.post(f"{api_endpoint}/register-json", json=collection_dict, headers=headers)
      r = requests.post(f"{api_endpoint}/register",
                        json={"type": "stac-item", "url": collection.get_self_href()}, headers=headers)
  \<close>
\<close>

definition post_headers :: "handler \<Rightarrow> (string \<times> string) list" where
  "post_headers self =
     [(''Accept'', ''application/json''), (''Authorization'', ''Bearer '' @ ades_rx_token self)]"

definition api_endpoint :: "ext \<Rightarrow> handler \<Rightarrow> pyval \<Rightarrow> string" where
  "api_endpoint x self user =
     workspace_url self @ ''/workspaces/'' @ workspace_prefix self @ ''-'' @ py_str x user"

definition register_collection ::
  "ext \<Rightarrow> handler \<Rightarrow> collection_obj \<Rightarrow> (string \<times> pyval) list \<Rightarrow> world \<Rightarrow> exn option \<times> world" where
  "register_collection x self col col_dict w =
     (if use_workspace self then
        (case username self of
           None \<Rightarrow> (Some AttributeError, w)
         | Some user \<Rightarrow>
             (let headers = post_headers self;
                  url1 = api_endpoint x self user @ ''/register-json'';
                  r1 = requests_post x (environ w) url1 (PDict col_dict) headers;
                  w1 = log_call (Post url1 (PDict col_dict) headers r1) w
              in case r1 of
                   Inl e \<Rightarrow> (Some e, w1)
                 | Inr _ \<Rightarrow>
                     (case get_self_href x col of
                        Inl e \<Rightarrow> (Some e, w1)
                      | Inr href \<Rightarrow>
                          (let url2 = api_endpoint x self user @ ''/register'';
                               body = PDict [(''type'', PStr ''stac-item''), (''url'', href)];
                               r2 = requests_post x (environ w1) url2 body headers;
                               w2 = log_call (Post url2 body headers r2) w1
                           in case r2 of
                                Inl e \<Rightarrow> (Some e, w2)
                              | Inr _ \<Rightarrow> (None, w2)))))
      else (None, w))"

text \<open>
  \<^verbatim>\<open>
  if collection is None:
      logger.error("ABORT: The output collection is empty")
      self.feature_collection = json.dumps({}, indent=2)
      return
  collection_dict=collection.to_dict()
  collection_dict["id"]=collection_id
  self.feature_collection = json.dumps(collection_dict, indent=2)
  \<close>
  followed by the registration.
\<close>

definition publish ::
  "ext \<Rightarrow> handler \<Rightarrow> pyval \<Rightarrow> collection_obj option \<Rightarrow> world \<Rightarrow> exn option \<times> handler \<times> world" where
  "publish x self cid col w =
     (case col of
        None \<Rightarrow> (None, self\<lparr>feature_collection := Some (PDict [])\<rparr>, w)
      | Some c \<Rightarrow>
          (let col_dict = dict_set (to_dict c) ''id'' cid;
               self' = self\<lparr>feature_collection := Some (PDict col_dict)\<rparr>
           in case register_collection x self' c col_dict w of
                (r, w') \<Rightarrow> (r, self', w')))"

text \<open>
  The part of the \<^verbatim>\<open>try\<close> body of \<^verbatim>\<open>post_execution_hook\<close> that precedes the
  consolidation: it exports the credentials, installs the class-level access point,
  reads the catalog and fetches the collection id. It yields the collection id, or the
  exception that leaves the hook.
\<close>

definition post_execution_prepare ::
  "ext \<Rightarrow> handler \<Rightarrow> (string \<rightharpoonup> string) \<Rightarrow> world \<Rightarrow> (exn + pyval) \<times> world" where
  "post_execution_prepare x self output w =
     (case export_env exported_variables self (unset_http_proxy_env w) of
        (Some e, w1) \<Rightarrow> (Inl e, w1)
      | (None, w1) \<Rightarrow>
          (case param self ''STAGEOUT_ACCESS_POINT'' of
             Inl e \<Rightarrow> (Inl e, w1)
           | Inr access_point \<Rightarrow>
               (let w2 = w1\<lparr>cls_access_point := set_access_point access_point (cls_access_point w1)\<rparr> in
                case output ''StacCatalogUri'' of
                  None \<Rightarrow> (Inl KeyError, w2)
                | Some _ \<Rightarrow>
                    (let w3 = read_catalog x output w2 in
                     case param self ''collection_id'' of
                       Inl e \<Rightarrow> (Inl e, w3)
                     | Inr cid \<Rightarrow> (Inr cid, w3)))))"

definition post_execution_body ::
  "ext \<Rightarrow> handler \<Rightarrow> (string \<rightharpoonup> string) \<Rightarrow> world \<Rightarrow> exn option \<times> handler \<times> world" where
  "post_execution_body x self output w =
     (case post_execution_prepare x self output w of
        (Inl e, w1) \<Rightarrow> (Some e, self, w1)
      | (Inr cid, w1) \<Rightarrow>
          (case consolidate self cid w1 of
             (col, w2) \<Rightarrow> publish x self cid col w2))"

text \<open>
  \<^verbatim>\<open>
  def post_execution_hook(self, log, output, usage_report, tool_logs):
      try:
          ...
      except Exception as e:
          logger.error(...)
          raise(e)
      finally:
          self.restore_http_proxy_env()
  \<close>
\<close>

definition post_execution_hook ::
  "ext \<Rightarrow> handler \<Rightarrow> (string \<rightharpoonup> string) \<Rightarrow> world \<Rightarrow> exn option \<times> handler \<times> world" where
  "post_execution_hook x self output w =
     (case post_execution_body x self output w of
        (r, self', w') \<Rightarrow> (r, self', restore_http_proxy_env self' w'))"

section \<open>A concrete deployment\<close>

text \<open>
  One deployment on which the hooks can be run: a workspace is configured, the token
  names the user \<open>alice\<close>, the cluster's config map names her bucket, and the output
  catalog lies at \<^verbatim>\<open>s3://results/run-1/catalog.json\<close>. The reply of the workspace API
  to the lookup and the object pystac builds from the catalog text are left open.
\<close>

definition demo_env :: "string \<rightharpoonup> string" where
  "demo_env =
     [''HTTP_PROXY'' \<mapsto> ''http://proxy:8080'',
      ''STAGEOUT_PULSAR_URL'' \<mapsto> ''pulsar://pulsar:6650'',
      ''WORKSPACE_DOMAIN'' \<mapsto> ''example.org'']"

definition demo_conf :: zoo_conf where
  "demo_conf =
     \<lparr>sections =
        [''eoepca'' \<mapsto> [''domain'' \<mapsto> ''example.org'',
                          ''workspace_url'' \<mapsto> ''https://workspace-api.example.org'',
                          ''workspace_prefix'' \<mapsto> ''ws''],
         ''auth_env'' \<mapsto> [''jwt'' \<mapsto> ''token''],
         ''lenv'' \<mapsto> [''usid'' \<mapsto> ''run-1'']],
      additional_parameters = None\<rparr>"

definition demo_inputs :: "string \<rightharpoonup> (string \<rightharpoonup> string)" where
  "demo_inputs = [''workspace'' \<mapsto> [''value'' \<mapsto> ''alice'']]"

definition demo_output :: "string \<rightharpoonup> string" where
  "demo_output = [''StacCatalogUri'' \<mapsto> ''s3://results/run-1/catalog.json'']"

definition demo_created :: response where
  "demo_created = \<lparr>status_code = 200, text_body = [], json_body = Inl JSONDecodeError\<rparr>"

definition demo_ext :: "exn + response \<Rightarrow> exn + catalog \<Rightarrow> ext" where
  "demo_ext lookup_reply stac_object =
     \<lparr>urlparse = (\<lambda>s. \<lparr>scheme = ''s3'', netloc = ''results'', path = ''/run-1/catalog.json''\<rparr>),
      create_client = (\<lambda>env args. if aws_access_key_id args = None \<and> env ''AWS_ACCESS_KEY_ID'' \<noteq> None
                                     then Some PartialCredentialsError else None),
      get_object = (\<lambda>client bucket k. if bucket = PStr ''results'' then Inr ''{}'' else Inl ClientError),
      put_object = (\<lambda>client rq. None),
      default_read_text = (\<lambda>s. Inl FileNotFoundError),
      default_write_text = (\<lambda>d t. None),
      stac_object_from_text = (\<lambda>t. stac_object),
      load_incluster_config = None,
      read_namespaced_config_map = (\<lambda>n ns. Inr (Some [''S3_BUCKET_WORKSPACE'' \<mapsto> ''ws-alice''])),
      jwt_decode = (\<lambda>t. Inr [''preferred_username'' \<mapsto> PStr ''alice'']),
      requests_get = (\<lambda>env url headers. lookup_reply),
      requests_post = (\<lambda>env url body headers. Inr demo_created),
      str_other = (\<lambda>v. ''?''),
      item_collection_get_self_href = Inl AttributeError\<rparr>"

definition demo_world :: world where
  "demo_world = \<lparr>environ = demo_env, cls_access_point = None, cat = None, calls = []\<rparr>"

definition demo_handler :: handler where
  "demo_handler = EoepcaCalrissianRunnerExecutionHandler demo_env demo_conf demo_inputs"

text \<open>
  Replies of the workspace API: the storage details of the workspace, a refusal, and a
  reply without content whose status is neither 2xx nor an error.
\<close>

definition demo_credentials :: "(string \<times> pyval) list" where
  "demo_credentials =
     [(''endpoint'', PStr ''https://minio.example.org''),
      (''access'', PStr ''alice-key''),
      (''secret'', PStr ''alice-secret''),
      (''region'', PStr ''eu-west-2''),
      (''bucketname'', PStr ''ws-alice'')]"

definition demo_details :: response where
  "demo_details =
     \<lparr>status_code = 200, text_body = [],
      json_body = Inr (PDict [(''storage'', PDict [(''credentials'', PDict demo_credentials)])])\<rparr>"

definition demo_not_found :: response where
  "demo_not_found = \<lparr>status_code = 404, text_body = ''Not Found'', json_body = Inl JSONDecodeError\<rparr>"

definition demo_not_modified :: response where
  "demo_not_modified = \<lparr>status_code = 304, text_body = [], json_body = Inl JSONDecodeError\<rparr>"

text \<open>
  Output catalogs: one with a collection of its own, one with two items of one asset each
  and no collection, and one that yields neither.
\<close>

definition demo_item :: "string \<Rightarrow> item" where
  "demo_item name =
     \<lparr>item_fields = [(''type'', PStr ''Feature''), (''id'', PStr name)],
      collection_id = PNone,
      assets = [(''data'', Asset [(''href'', PStr (''s3://results/run-1/'' @ name @ ''.tif''))])]\<rparr>"

definition demo_collection :: collection where
  "demo_collection =
     \<lparr>collection_dict = [(''type'', PStr ''Collection''), (''id'', PStr ''from-catalog''),
                         (''description'', PStr ''results'')],
      self_href = PStr ''s3://results/run-1/collection.json''\<rparr>"

definition demo_catalog_with_collection :: catalog where
  "demo_catalog_with_collection =
     \<lparr>all_collections = Inr [demo_collection],
      all_items = [demo_item ''a'', demo_item ''b''],
      all_items_raises = None\<rparr>"

definition demo_catalog_with_items :: catalog where
  "demo_catalog_with_items =
     \<lparr>all_collections = Inr [],
      all_items = [demo_item ''a'', demo_item ''b''],
      all_items_raises = None\<rparr>"

definition demo_catalog_empty :: catalog where
  "demo_catalog_empty = \<lparr>all_collections = Inr [], all_items = [], all_items_raises = None\<rparr>"

text \<open>A catalog without collection whose item sequence yields one item and then raises.\<close>

definition demo_catalog_interrupted :: catalog where
  "demo_catalog_interrupted =
     \<lparr>all_collections = Inr [], all_items = [demo_item ''a''], all_items_raises = Some ClientError\<rparr>"

text \<open>The handler as the pre-execution hook leaves it when the lookup succeeds.\<close>

definition demo_prepared :: handler where
  "demo_prepared = fst (snd (pre_execution_hook (demo_ext (Inr demo_details) (Inl ClientError))
                               demo_handler demo_world))"

section \<open>Properties stated about the results\<close>

text \<open>An asset carries the storage annotation for a given region and endpoint.\<close>

definition storage_annotated :: "pyval \<Rightarrow> pyval \<Rightarrow> asset \<Rightarrow> bool" where
  "storage_annotated region endpoint a =
     (dict_get (asset_to_dict a) ''storage:platform'' = Some (PStr ''EOEPCA'') \<and>
      dict_get (asset_to_dict a) ''storage:requester_pays'' = Some (PBool False) \<and>
      dict_get (asset_to_dict a) ''storage:tier'' = Some (PStr ''Standard'') \<and>
      dict_get (asset_to_dict a) ''storage:region'' = Some region \<and>
      dict_get (asset_to_dict a) ''storage:endpoint'' = Some endpoint)"

text \<open>
  The five keys the hook writes into an asset. \<open>annotation_of region endpoint a a'\<close>:
  asset \<open>a'\<close> carries the storage annotation and agrees with asset \<open>a\<close> on every other
  key, so it keeps each entry \<open>a\<close> had and has no further entry.
\<close>

definition storage_keys :: "string list" where
  "storage_keys =
     [''storage:platform'', ''storage:requester_pays'', ''storage:tier'', ''storage:region'',
      ''storage:endpoint'']"

definition annotation_of :: "pyval \<Rightarrow> pyval \<Rightarrow> asset \<Rightarrow> asset \<Rightarrow> bool" where
  "annotation_of region endpoint a a' \<longleftrightarrow>
     storage_annotated region endpoint a' \<and>
     (\<forall>f. f \<notin> set storage_keys \<longrightarrow>
          dict_get (asset_to_dict a') f = dict_get (asset_to_dict a) f)"

text \<open>Whether a logged call is one of the two registration requests.\<close>

fun is_post :: "request \<Rightarrow> bool" where
  "is_post (Post url body headers r) = True"
| "is_post _ = False"

text \<open>
  The deployment with each of the three catalogs, and the handler as the pre-execution
  hook leaves it after each of the two other replies.
\<close>

definition demo_ext_collection :: ext where
  "demo_ext_collection = demo_ext (Inr demo_details) (Inr demo_catalog_with_collection)"

definition demo_ext_items :: ext where
  "demo_ext_items = demo_ext (Inr demo_details) (Inr demo_catalog_with_items)"

definition demo_ext_empty :: ext where
  "demo_ext_empty = demo_ext (Inr demo_details) (Inr demo_catalog_empty)"

definition demo_ext_interrupted :: ext where
  "demo_ext_interrupted = demo_ext (Inr demo_details) (Inr demo_catalog_interrupted)"

definition demo_refused :: handler where
  "demo_refused = fst (snd (pre_execution_hook (demo_ext (Inr demo_not_found) (Inl ClientError))
                              demo_handler demo_world))"

definition demo_unchanged :: handler where
  "demo_unchanged = fst (snd (pre_execution_hook (demo_ext (Inr demo_not_modified) (Inl ClientError))
                                demo_handler demo_world))"

definition demo_annotated :: "string \<Rightarrow> item" where
  "demo_annotated name =
     \<lparr>item_fields = [(''type'', PStr ''Feature''), (''id'', PStr name)],
      collection_id = PStr ''run-1'',
      assets = [(''data'', Asset [(''href'', PStr (''s3://results/run-1/'' @ name @ ''.tif'')),
                                  (''storage:platform'', PStr ''EOEPCA''),
                                  (''storage:requester_pays'', PBool False),
                                  (''storage:tier'', PStr ''Standard''),
                                  (''storage:region'', PStr ''eu-west-2''),
                                  (''storage:endpoint'', PStr ''https://minio.example.org'')])]\<rparr>"

definition demo_items_annotated :: "item list" where
  "demo_items_annotated = [demo_annotated ''a'', demo_annotated ''b'']"

text \<open>
  \<open>proxy_kept w w'\<close>: from world \<open>w\<close> to world \<open>w'\<close> the log has only grown, \<^verbatim>\<open>HTTP_PROXY\<close>
  has not changed, and every call added saw the value it has in \<open>w\<close>.
\<close>

definition proxy_kept :: "world \<Rightarrow> world \<Rightarrow> bool" where
  "proxy_kept w w' \<longleftrightarrow>
     environ w' ''HTTP_PROXY'' = environ w ''HTTP_PROXY'' \<and>
     calls w' = calls w @ calls_during w w' \<and>
     (\<forall>c\<in>set (calls_during w w'). http_proxy c = environ w ''HTTP_PROXY'')"

text \<open>
  \<open>restamped cid region endpoint i i'\<close>: item \<open>i'\<close> is item \<open>i\<close> with the collection id
  \<open>cid\<close>, the same asset keys in the same order, and under each key the annotation of the
  asset \<open>i\<close> has there.
\<close>

definition restamped :: "pyval \<Rightarrow> pyval \<Rightarrow> pyval \<Rightarrow> item \<Rightarrow> item \<Rightarrow> bool" where
  "restamped cid region endpoint i i' \<longleftrightarrow>
     item_fields i' = item_fields i \<and>
     collection_id i' = cid \<and>
     map fst (assets i') = map fst (assets i) \<and>
     (\<forall>k a. map_of (assets i) k = Some a \<longrightarrow>
            (\<exists>a'. map_of (assets i') k = Some a' \<and> annotation_of region endpoint a a')) \<and>
     (\<forall>(k, a)\<in>set (assets i'). storage_annotated region endpoint a)"

section \<open>Dictionaries\<close>

lemma dict_get_dict_set:
  "dict_get (dict_set d k v) k' = (if k' = k then Some v else dict_get d k')"
  by (induction d) (auto simp: dict_get_def)

section \<open>Identity extraction returns the first field present\<close>

lemma get_user_name_loop_find:
  "get_user_name_loop keys d =
     (case find (\<lambda>k. d k \<noteq> None) keys of None \<Rightarrow> PStr [] | Some k \<Rightarrow> the (d k))"
  by (induction keys) (auto split: option.splits)

text \<open>
  Claim C5. For every decoded token, \<open>get_user_name\<close> returns the value of the first key
  present among \<^verbatim>\<open>username\<close>, \<^verbatim>\<open>user_name\<close>, \<^verbatim>\<open>preferred_username\<close>, in that order, and
  the empty string when none of the three is present.
\<close>

theorem get_user_name_priority:
  "(d ''username'' = Some v \<longrightarrow> get_user_name d = v) \<and>
   (d ''username'' = None \<and> d ''user_name'' = Some v \<longrightarrow> get_user_name d = v) \<and>
   (d ''username'' = None \<and> d ''user_name'' = None \<and> d ''preferred_username'' = Some v
      \<longrightarrow> get_user_name d = v) \<and>
   (d ''username'' = None \<and> d ''user_name'' = None \<and> d ''preferred_username'' = None
      \<longrightarrow> get_user_name d = PStr [])"
  by (simp add: get_user_name_def)

theorem get_user_name_priority_witness:
  "get_user_name [''username'' \<mapsto> PStr ''u1'', ''user_name'' \<mapsto> PStr ''u2''] = PStr ''u1'' \<and>
   get_user_name [''user_name'' \<mapsto> PStr ''u2'', ''preferred_username'' \<mapsto> PStr ''u3''] = PStr ''u2'' \<and>
   get_user_name [''preferred_username'' \<mapsto> PStr ''u3'', ''email'' \<mapsto> PStr ''e''] = PStr ''u3'' \<and>
   get_user_name [''email'' \<mapsto> PStr ''e''] = PStr []"
  using get_user_name_priority [of "[''username'' \<mapsto> PStr ''u1'', ''user_name'' \<mapsto> PStr ''u2'']" "PStr ''u1''"]
        get_user_name_priority [of "[''user_name'' \<mapsto> PStr ''u2'', ''preferred_username'' \<mapsto> PStr ''u3'']" "PStr ''u2''"]
        get_user_name_priority [of "[''preferred_username'' \<mapsto> PStr ''u3'', ''email'' \<mapsto> PStr ''e'']" "PStr ''u3''"]
        get_user_name_priority [of "[''email'' \<mapsto> PStr ''e'']" "PNone"]
  by simp

section \<open>Loading a YAML file: what is caught and what is not\<close>

text \<open>
  Claim C10, as amended. \<open>local_get_file\<close> returns the parsed content when the file
  opens and parses. When \<^verbatim>\<open>open\<close> or the load raises, the exception is turned into the
  empty mapping exactly when it is a \<^verbatim>\<open>FileNotFoundError\<close> or a \<^verbatim>\<open>YAMLError\<close> (a
  \<^verbatim>\<open>ScannerError\<close> is one); every other exception leaves the function.
\<close>

theorem local_get_file_outcome:
  "(open_file f = Inr txt \<and> safe_load txt = Inr data
      \<longrightarrow> local_get_file open_file safe_load f = Inr data) \<and>
   ((open_file f = Inl e \<or> open_file f = Inr txt \<and> safe_load txt = Inl e) \<and>
    (isinstance e FileNotFoundError \<or> isinstance e YAMLError)
      \<longrightarrow> local_get_file open_file safe_load f = Inr (PDict [])) \<and>
   ((open_file f = Inl e \<or> open_file f = Inr txt \<and> safe_load txt = Inl e) \<and>
    \<not> isinstance e FileNotFoundError \<and> \<not> isinstance e YAMLError
      \<longrightarrow> local_get_file open_file safe_load f = Inl e)"
proof -
  have scanner: "isinstance e ScannerError \<Longrightarrow> isinstance e YAMLError"
    by (cases e) simp_all
  show ?thesis
    using scanner by (auto simp: local_get_file_def)
qed

theorem local_get_file_outcome_witness:
  "local_get_file (\<lambda>n. if n = ''/assets/pod_imagePullSecrets.yaml'' then Inr ''a: b'' else Inl FileNotFoundError)
     (\<lambda>t. Inr (PDict [(''a'', PStr ''b'')])) ''/assets/pod_imagePullSecrets.yaml''
     = Inr (PDict [(''a'', PStr ''b'')]) \<and>
   local_get_file (\<lambda>n. if n = ''/assets/pod_imagePullSecrets.yaml'' then Inr ''a: b'' else Inl FileNotFoundError)
     (\<lambda>t. Inr (PDict [(''a'', PStr ''b'')])) ''/assets/missing.yaml''
     = Inr (PDict []) \<and>
   local_get_file (\<lambda>n. Inr ''a: [b'') (\<lambda>t. Inl ScannerError) ''/assets/broken.yaml'' = Inr (PDict []) \<and>
   local_get_file (\<lambda>n. Inl OSError) (\<lambda>t. Inl ScannerError) ''/assets/unreadable.yaml'' = Inl OSError"
  using local_get_file_outcome
          [of "\<lambda>n. if n = ''/assets/pod_imagePullSecrets.yaml'' then Inr ''a: b'' else Inl FileNotFoundError"
              "''/assets/pod_imagePullSecrets.yaml''" "''a: b''" "\<lambda>t. Inr (PDict [(''a'', PStr ''b'')])"
              "PDict [(''a'', PStr ''b'')]" YAMLError]
        local_get_file_outcome
          [of "\<lambda>n. if n = ''/assets/pod_imagePullSecrets.yaml'' then Inr ''a: b'' else Inl FileNotFoundError"
              "''/assets/missing.yaml''" "''a: b''" "\<lambda>t. Inr (PDict [(''a'', PStr ''b'')])"
              "PDict [(''a'', PStr ''b'')]" FileNotFoundError]
        local_get_file_outcome
          [of "\<lambda>n. Inr ''a: [b''" "''/assets/broken.yaml''" "''a: [b''" "\<lambda>t. Inl ScannerError"
              PNone ScannerError]
        local_get_file_outcome
          [of "\<lambda>n. Inl OSError" "''/assets/unreadable.yaml''" "''a: [b''" "\<lambda>t. Inl ScannerError"
              PNone OSError]
  by simp

text \<open>
  The claim as first stated fails on a name whose file does not exist and on content that
  does not load as YAML: a path below something that is no directory makes \<^verbatim>\<open>open\<close>
  raise \<^verbatim>\<open>NotADirectoryError\<close>, and bytes that do not decode make the load raise
  \<^verbatim>\<open>UnicodeDecodeError\<close>; neither is caught.
\<close>

theorem local_get_file_raises_counterexample:
  "local_get_file (\<lambda>n. Inl NotADirectoryError) (\<lambda>t. Inr PNone) ''/assets/pod.yaml/missing.yaml''
     = Inl NotADirectoryError \<and>
   local_get_file (\<lambda>n. Inr []) (\<lambda>t. Inl UnicodeDecodeError) ''/assets/binary.yaml''
     = Inl UnicodeDecodeError"
  by (simp add: local_get_file_def)

section \<open>The class-level access point is shadowed\<close>

lemma CustomStacIO_inst_access_point:
  "CustomStacIO x env = Inr io \<Longrightarrow> inst_access_point io = Some PNone"
  by (auto simp: CustomStacIO_def Let_def split: option.splits if_splits)

text \<open>
  Claim C9. For every instance the constructor returns, and whatever value
  \<open>set_access_point\<close> has installed on the class, \<^verbatim>\<open>self.access_point\<close> is \<^verbatim>\<open>None\<close>, so
  \<open>read_text\<close> and \<open>write_text\<close> address the bucket named by the network location of
  the URI.
\<close>

theorem access_point_shadowed:
  assumes "CustomStacIO x env = Inr io"
  shows "getattr_access_point (set_access_point v cls) io = Inr PNone \<and>
         read_text x (set_access_point v cls) io source =
           (if scheme (urlparse x source) = ''s3''
            then get_object x (s3_client io) (PStr (netloc (urlparse x source)))
                   (drop 1 (path (urlparse x source)))
            else default_read_text x source) \<and>
         write_text x (set_access_point v cls) io dest txt =
           (if scheme (urlparse x dest) = ''s3''
            then put_object x (s3_client io)
                   \<lparr>Body = txt, Bucket = PStr (netloc (urlparse x dest)),
                    Key = drop 1 (path (urlparse x dest)),
                    ContentType = ''application/geo+json''\<rparr>
            else default_write_text x dest txt)"
  using CustomStacIO_inst_access_point [OF assms]
  by (simp add: getattr_access_point_def read_text_def write_text_def py_or_def Let_def)

theorem access_point_shadowed_witness:
  "CustomStacIO (demo_ext (Inl RequestException) (Inl ClientError))
     [''AWS_ACCESS_KEY_ID'' \<mapsto> ''k'', ''AWS_SECRET_ACCESS_KEY'' \<mapsto> ''s'']
     = Inr \<lparr>inst_access_point = Some PNone,
            s3_client = \<lparr>region_name = None, endpoint_url = None,
                          aws_access_key_id = Some ''k'', aws_secret_access_key = Some ''s''\<rparr>\<rparr> \<and>
   read_text (demo_ext (Inl RequestException) (Inl ClientError))
     (set_access_point (PStr ''ws-alice'') None)
     \<lparr>inst_access_point = Some PNone,
      s3_client = \<lparr>region_name = None, endpoint_url = None,
                    aws_access_key_id = Some ''k'', aws_secret_access_key = Some ''s''\<rparr>\<rparr>
     ''s3://results/run-1/catalog.json'' = Inr ''{}''"
proof -
  have made: "CustomStacIO (demo_ext (Inl RequestException) (Inl ClientError))
     [''AWS_ACCESS_KEY_ID'' \<mapsto> ''k'', ''AWS_SECRET_ACCESS_KEY'' \<mapsto> ''s'']
     = Inr \<lparr>inst_access_point = Some PNone,
            s3_client = \<lparr>region_name = None, endpoint_url = None,
                          aws_access_key_id = Some ''k'', aws_secret_access_key = Some ''s''\<rparr>\<rparr>"
    by (simp add: CustomStacIO_def demo_ext_def)
  show ?thesis
    using made
      access_point_shadowed [OF made, of "PStr ''ws-alice''" None
        "''s3://results/run-1/catalog.json''"]
    by (simp add: demo_ext_def)
qed

section \<open>The log of calls\<close>

lemma calls_during_append: "calls w' = calls w @ xs \<Longrightarrow> calls_during w w' = xs"
  by (simp add: calls_during_def)

lemma calls_during_trans:
  "calls w1 = calls w @ calls_during w w1 \<Longrightarrow> calls w2 = calls w1 @ calls_during w1 w2 \<Longrightarrow>
   calls_during w w2 = calls_during w w1 @ calls_during w1 w2 \<and>
   calls w2 = calls w @ calls_during w w2"
  by (metis append.assoc calls_during_append)

lemma read_access_point_calls:
  "read_access_point x self w = (r, w1) \<Longrightarrow>
     calls w1 = calls w @ calls_during w w1 \<and>
     (\<forall>c\<in>set (calls_during w w1). \<forall>url hdrs reply. request c \<noteq> Get url hdrs reply)"
  by (auto simp: read_access_point_def log_call_def calls_during_def Let_def
           split: option.splits sum.splits if_splits)

lemma lookup_storage_details_calls:
  "lookup_storage_details x self w = (r, self', w1) \<Longrightarrow> calls w1 = calls w @ calls_during w w1"
  by (auto simp: lookup_storage_details_def log_call_def calls_during_def Let_def
           split: option.splits sum.splits if_splits prod.splits)

lemma lookup_storage_details_get:
  assumes "lookup_storage_details x self w = (r, self', w1)"
      and "c \<in> set (calls_during w w1)" and "request c = Get url hdrs reply"
  shows "use_workspace self \<and>
         (case reply of
            Inl e \<Rightarrow> r = Some e \<and> self' = self
          | Inr resp \<Rightarrow>
              if ok resp then
                (case json_body resp of
                   Inl e \<Rightarrow> r = Some e \<and> self' = self
                 | Inr body \<Rightarrow>
                     (case subscript body ''storage'' of
                        Inl e \<Rightarrow> r = Some e \<and> self' = self
                      | Inr storage \<Rightarrow>
                          (case subscript storage ''credentials'' of
                             Inl e \<Rightarrow> r = Some e \<and> self' = self
                           | Inr creds \<Rightarrow> (r, self') = copy_credentials credential_fields creds self)))
              else r = None \<and> self' = self\<lparr>use_workspace := False\<rparr>)"
  using assms
  by (auto simp: lookup_storage_details_def log_call_def calls_during_def Let_def
           split: option.splits sum.splits if_splits prod.splits)

lemma calls_restore [simp]: "calls (restore_http_proxy_env s w) = calls w"
  by (simp add: restore_http_proxy_env_def split: option.splits)

lemma calls_unset [simp]: "calls (unset_http_proxy_env w) = calls w"
  by (simp add: unset_http_proxy_env_def)

lemma calls_during_restore [simp]:
  "calls_during w (restore_http_proxy_env s w') = calls_during w w'"
  by (simp add: calls_during_def)

lemma calls_during_unset [simp]:
  "calls_during (unset_http_proxy_env w) w' = calls_during w w'"
  by (simp add: calls_during_def)

lemma pre_execution_hook_get:
  assumes "c \<in> set (calls_during w (snd (snd (pre_execution_hook x self w))))"
      and "request c = Get url hdrs reply"
  shows "\<exists>ap self1 r2 self2 w1 w2.
           read_access_point x self (unset_http_proxy_env w) = (Inr ap, w1) \<and>
           decode_token x self = Inr self1 \<and>
           lookup_storage_details x self1 w1 = (r2, self2, w2) \<and>
           c \<in> set (calls_during w1 w2) \<and>
           fst (snd (pre_execution_hook x self w)) =
             (case r2 of Some e \<Rightarrow> self2 | None \<Rightarrow> snd (set_execution_parameters self2 ap))"
proof -
  obtain r1 w1 where rap: "read_access_point x self (unset_http_proxy_env w) = (r1, w1)"
    by (cases "read_access_point x self (unset_http_proxy_env w)")
  note A = read_access_point_calls [OF rap]
  have no_get: "c \<notin> set (calls_during w w1)"
    using A assms(2) by auto
  show ?thesis
  proof (cases r1)
    case (Inl e)
    then have "calls_during w (snd (snd (pre_execution_hook x self w))) = calls_during w w1"
      using rap by (simp add: pre_execution_hook_def pre_execution_body_def)
    then show ?thesis using no_get assms(1) by simp
  next
    case (Inr ap)
    show ?thesis
    proof (cases "decode_token x self")
      case (Inl e)
      then have "calls_during w (snd (snd (pre_execution_hook x self w))) = calls_during w w1"
        using rap Inr by (simp add: pre_execution_hook_def pre_execution_body_def)
      then show ?thesis using no_get assms(1) by simp
    next
      case self1: (Inr self1)
      obtain r2 self2 w2 where look: "lookup_storage_details x self1 w1 = (r2, self2, w2)"
        by (cases "lookup_storage_details x self1 w1")
      note B = lookup_storage_details_calls [OF look]
      have w1: "calls w1 = calls (unset_http_proxy_env w) @ calls_during (unset_http_proxy_env w) w1"
        using A by simp
      have w2: "calls w2 = calls w1 @ calls_during w1 w2"
        using B by simp
      have res: "snd (snd (pre_execution_hook x self w)) =
                   restore_http_proxy_env (fst (snd (pre_execution_hook x self w))) w2"
        using rap Inr self1 look
        by (simp add: pre_execution_hook_def pre_execution_body_def split: option.splits prod.splits)
      have "calls_during w (snd (snd (pre_execution_hook x self w))) = calls_during w w1 @ calls_during w1 w2"
        using calls_during_trans [OF w1 w2] by (simp add: res)
      then have "c \<in> set (calls_during w1 w2)"
        using assms(1) no_get by simp
      moreover have "fst (snd (pre_execution_hook x self w)) =
             (case r2 of Some e \<Rightarrow> self2 | None \<Rightarrow> snd (set_execution_parameters self2 ap))"
        using rap Inr self1 look
        by (simp add: pre_execution_hook_def pre_execution_body_def split: option.splits prod.splits)
      ultimately show ?thesis
        using rap Inr self1 look by blast
    qed
  qed
qed

section \<open>The workspace lookup of the pre-execution hook\<close>

lemma decode_token_fields:
  "decode_token x self = Inr self1 \<Longrightarrow>
     conf self1 = conf self \<and> use_workspace self1 = use_workspace self \<and>
     http_proxy_env self1 = http_proxy_env self \<and> workspace_name self1 = workspace_name self \<and>
     feature_collection self1 = feature_collection self"
  by (auto simp: decode_token_def split: if_splits sum.splits)

lemma copy_credentials_dict:
  assumes "additional_parameters (conf self) = Some ap"
  shows "copy_credentials credential_fields (PDict creds) self =
           (None, self\<lparr>conf := (conf self)\<lparr>additional_parameters :=
              Some (ap(''STAGEOUT_AWS_SERVICEURL'' \<mapsto> (case dict_get creds ''endpoint'' of None \<Rightarrow> PNone | Some v \<Rightarrow> v),
                       ''STAGEOUT_AWS_ACCESS_KEY_ID'' \<mapsto> (case dict_get creds ''access'' of None \<Rightarrow> PNone | Some v \<Rightarrow> v),
                       ''STAGEOUT_AWS_SECRET_ACCESS_KEY'' \<mapsto> (case dict_get creds ''secret'' of None \<Rightarrow> PNone | Some v \<Rightarrow> v),
                       ''STAGEOUT_AWS_REGION'' \<mapsto> (case dict_get creds ''region'' of None \<Rightarrow> PNone | Some v \<Rightarrow> v),
                       ''STAGEOUT_OUTPUT'' \<mapsto> (case dict_get creds ''bucketname'' of None \<Rightarrow> PNone | Some v \<Rightarrow> v)))\<rparr>\<rparr>)"
  using assms
  by (simp add: credential_fields_def set_param_def dot_get_def split: option.splits)

lemma set_params_frame:
  "k \<notin> fst ` set kvs \<Longrightarrow>
     param (snd (set_params kvs s)) k = param s k \<and>
     use_workspace (snd (set_params kvs s)) = use_workspace s \<and>
     http_proxy_env (snd (set_params kvs s)) = http_proxy_env s \<and>
     feature_collection (snd (set_params kvs s)) = feature_collection s"
proof (induction kvs arbitrary: s)
  case Nil
  then show ?case by simp
next
  case (Cons kv kvs)
  obtain k' v where kv: "kv = (k', v)" by (cases kv)
  show ?case
  proof (cases "set_param s k' v")
    case (Inl e)
    then show ?thesis using kv by simp
  next
    case (Inr s')
    then have "param s' k = param s k" "use_workspace s' = use_workspace s"
      "http_proxy_env s' = http_proxy_env s" "feature_collection s' = feature_collection s"
      using Cons.prems kv by (auto simp: set_param_def param_def split: option.splits)
    then show ?thesis using Cons.IH [of s'] Cons.prems kv Inr by simp
  qed
qed

lemma copy_credentials_fields:
  "use_workspace (snd (copy_credentials fs creds s)) = use_workspace s \<and>
   http_proxy_env (snd (copy_credentials fs creds s)) = http_proxy_env s \<and>
   workspace_name (snd (copy_credentials fs creds s)) = workspace_name s \<and>
   (additional_parameters (conf s) \<noteq> None \<longrightarrow>
      additional_parameters (conf (snd (copy_credentials fs creds s))) \<noteq> None)"
proof (induction fs arbitrary: s)
  case Nil
  then show ?case by simp
next
  case (Cons f fs)
  obtain k field where f: "f = (k, field)" by (cases f)
  show ?case
  proof (cases "dot_get creds field")
    case (Inl e)
    then show ?thesis using f by simp
  next
    case v: (Inr v)
    show ?thesis
    proof (cases "set_param s k v")
      case (Inl e)
      then show ?thesis using f v by simp
    next
      case (Inr s')
      then have "use_workspace s' = use_workspace s" "http_proxy_env s' = http_proxy_env s"
        "workspace_name s' = workspace_name s" "additional_parameters (conf s') \<noteq> None"
        by (auto simp: set_param_def split: option.splits)
      then show ?thesis using Cons.IH [of s'] f v Inr by simp
    qed
  qed
qed

lemma set_execution_parameters_frame:
  assumes "k \<noteq> ''collection_id''" "k \<noteq> ''process''" "k \<noteq> ''STAGEOUT_WORKSPACE''"
          "k \<noteq> ''STAGEOUT_ACCESS_POINT''"
  shows "param (snd (set_execution_parameters s a)) k = param s k"
  using assms
  by (simp add: set_execution_parameters_def Let_def set_params_frame del: set_params.simps)

lemma set_execution_parameters_use_workspace:
  "use_workspace (snd (set_execution_parameters s a)) = use_workspace s"
  using set_params_frame [of "''x''"]
  by (simp add: set_execution_parameters_def Let_def del: set_params.simps)

lemma set_execution_parameters_set:
  assumes "additional_parameters (conf s) \<noteq> None"
  shows "param (snd (set_execution_parameters s a)) ''STAGEOUT_WORKSPACE'' = Inr (PStr (workspace_name s)) \<and>
         param (snd (set_execution_parameters s a)) ''STAGEOUT_ACCESS_POINT'' = Inr a"
  using assms
  by (auto simp: set_execution_parameters_def Let_def set_param_def param_def)

lemma handler_has_parameters:
  "additional_parameters (conf (EoepcaCalrissianRunnerExecutionHandler env c ins)) \<noteq> None"
  by (simp add: EoepcaCalrissianRunnerExecutionHandler_def init_config_defaults_def Let_def)

lemma init_config_defaults_stageout:
  "param (EoepcaCalrissianRunnerExecutionHandler env c ins) ''STAGEOUT_AWS_SERVICEURL''
     = Inr (environ_get env ''STAGEOUT_AWS_SERVICEURL'' (PStr ''http://s3-service.zoo.svc.cluster.local:9000''))"
  "param (EoepcaCalrissianRunnerExecutionHandler env c ins) ''STAGEOUT_AWS_ACCESS_KEY_ID''
     = Inr (environ_get env ''STAGEOUT_AWS_ACCESS_KEY_ID'' (PStr ''minio-admin''))"
  "param (EoepcaCalrissianRunnerExecutionHandler env c ins) ''STAGEOUT_AWS_SECRET_ACCESS_KEY''
     = Inr (environ_get env ''STAGEOUT_AWS_SECRET_ACCESS_KEY'' (PStr ''minio-secret-password''))"
  "param (EoepcaCalrissianRunnerExecutionHandler env c ins) ''STAGEOUT_AWS_REGION''
     = Inr (environ_get env ''STAGEOUT_AWS_REGION'' (PStr ''RegionOne''))"
  "param (EoepcaCalrissianRunnerExecutionHandler env c ins) ''STAGEOUT_OUTPUT''
     = Inr (environ_get env ''STAGEOUT_OUTPUT'' (PStr ''eoepca''))"
  "param (EoepcaCalrissianRunnerExecutionHandler env c ins) ''STAGEOUT_PULSAR_URL''
     = Inr (environ_get env ''STAGEOUT_PULSAR_URL'' PNone)"
  by (simp_all add: EoepcaCalrissianRunnerExecutionHandler_def init_config_defaults_def param_def Let_def)

lemma demo_handler_ready:
  "use_workspace demo_handler \<and> additional_parameters (conf demo_handler) \<noteq> None"
  by code_simp

lemma demo_details_calls:
  "calls_during demo_world
     (snd (snd (pre_execution_hook (demo_ext (Inr demo_details) (Inl ClientError)) demo_handler demo_world)))
   = [\<lparr>request = LoadInclusterConfig, http_proxy = None\<rparr>,
      \<lparr>request = ReadNamespacedConfigMap ''workspace-config'' ''ws-alice'', http_proxy = None\<rparr>,
      \<lparr>request = Get ''https://workspace-api.example.org/workspaces/ws-alice''
                    [(''accept'', ''application/json''), (''Authorization'', ''Bearer token'')]
                    (Inr demo_details),
       http_proxy = None\<rparr>]"
  by code_simp

lemma demo_not_found_calls:
  "calls_during demo_world
     (snd (snd (pre_execution_hook (demo_ext (Inr demo_not_found) (Inl ClientError)) demo_handler demo_world)))
   = [\<lparr>request = LoadInclusterConfig, http_proxy = None\<rparr>,
      \<lparr>request = ReadNamespacedConfigMap ''workspace-config'' ''ws-alice'', http_proxy = None\<rparr>,
      \<lparr>request = Get ''https://workspace-api.example.org/workspaces/ws-alice''
                    [(''accept'', ''application/json''), (''Authorization'', ''Bearer token'')]
                    (Inr demo_not_found),
       http_proxy = None\<rparr>]"
  by code_simp

lemma demo_not_modified_calls:
  "calls_during demo_world
     (snd (snd (pre_execution_hook (demo_ext (Inr demo_not_modified) (Inl ClientError)) demo_handler demo_world)))
   = [\<lparr>request = LoadInclusterConfig, http_proxy = None\<rparr>,
      \<lparr>request = ReadNamespacedConfigMap ''workspace-config'' ''ws-alice'', http_proxy = None\<rparr>,
      \<lparr>request = Get ''https://workspace-api.example.org/workspaces/ws-alice''
                    [(''accept'', ''application/json''), (''Authorization'', ''Bearer token'')]
                    (Inr demo_not_modified),
       http_proxy = None\<rparr>]"
  by code_simp

text \<open>
  Claim C3, as amended. When the workspace is configured and the lookup is answered with
  a status from 400 to 599, \<open>use_workspace\<close> becomes false and every entry of
  \<^verbatim>\<open>additional_parameters\<close> other than \<^verbatim>\<open>collection_id\<close>, \<^verbatim>\<open>process\<close>,
  \<^verbatim>\<open>STAGEOUT_WORKSPACE\<close> and \<^verbatim>\<open>STAGEOUT_ACCESS_POINT\<close> keeps the value it had before the
  hook: in particular the five storage credentials and \<^verbatim>\<open>STAGEOUT_PULSAR_URL\<close>, which for
  a handler fresh from its constructor are the defaults of \<open>init_config_defaults\<close>. The
  hook always writes \<^verbatim>\<open>STAGEOUT_WORKSPACE\<close> and \<^verbatim>\<open>STAGEOUT_ACCESS_POINT\<close>: they become the
  workspace name and the access point read from the cluster.
\<close>

theorem lookup_refused_keeps_defaults:
  assumes "use_workspace self"
      and "c \<in> set (calls_during w (snd (snd (pre_execution_hook x self w))))"
      and "request c = Get url hdrs (Inr resp)"
      and "400 \<le> status_code resp" and "status_code resp < 600"
  shows "use_workspace (fst (snd (pre_execution_hook x self w))) = False \<and>
         (\<forall>k. k \<noteq> ''collection_id'' \<and> k \<noteq> ''process'' \<and> k \<noteq> ''STAGEOUT_WORKSPACE'' \<and>
              k \<noteq> ''STAGEOUT_ACCESS_POINT'' \<longrightarrow>
              param (fst (snd (pre_execution_hook x self w))) k = param self k) \<and>
         (additional_parameters (conf self) \<noteq> None \<longrightarrow>
            param (fst (snd (pre_execution_hook x self w))) ''STAGEOUT_WORKSPACE''
              = Inr (PStr (workspace_name self)) \<and>
            param (fst (snd (pre_execution_hook x self w))) ''STAGEOUT_ACCESS_POINT''
              = fst (read_access_point x self (unset_http_proxy_env w)))"
proof -
  obtain ap self1 r2 self2 w1 w2 where
    rap: "read_access_point x self (unset_http_proxy_env w) = (Inr ap, w1)" and
    dec: "decode_token x self = Inr self1" and
    look: "lookup_storage_details x self1 w1 = (r2, self2, w2)" and
    c: "c \<in> set (calls_during w1 w2)" and
    res: "fst (snd (pre_execution_hook x self w)) =
            (case r2 of Some e \<Rightarrow> self2 | None \<Rightarrow> snd (set_execution_parameters self2 ap))"
    using pre_execution_hook_get [OF assms(2,3)] by blast
  have "\<not> ok resp" using assms(4,5) by (simp add: ok_def)
  then have r2: "r2 = None" and self2: "self2 = self1\<lparr>use_workspace := False\<rparr>"
    using lookup_storage_details_get [OF look c assms(3)] by simp_all
  have conf1: "conf self1 = conf self" and name1: "workspace_name self1 = workspace_name self"
    using decode_token_fields [OF dec] by simp_all
  have p2: "param self2 k = param self k" for k
    using self2 conf1 by (simp add: param_def)
  have res': "fst (snd (pre_execution_hook x self w)) = snd (set_execution_parameters self2 ap)"
    using res r2 by simp
  have "use_workspace (fst (snd (pre_execution_hook x self w))) = False"
    using res' self2 by (simp add: set_execution_parameters_use_workspace)
  moreover have "param (fst (snd (pre_execution_hook x self w))) k = param self k"
    if "k \<noteq> ''collection_id''" "k \<noteq> ''process''" "k \<noteq> ''STAGEOUT_WORKSPACE''"
       "k \<noteq> ''STAGEOUT_ACCESS_POINT''" for k
    using res' set_execution_parameters_frame [OF that] p2 by simp
  moreover have "param (fst (snd (pre_execution_hook x self w))) ''STAGEOUT_WORKSPACE''
              = Inr (PStr (workspace_name self)) \<and>
            param (fst (snd (pre_execution_hook x self w))) ''STAGEOUT_ACCESS_POINT''
              = fst (read_access_point x self (unset_http_proxy_env w))"
    if "additional_parameters (conf self) \<noteq> None"
  proof -
    have "additional_parameters (conf self2) \<noteq> None" using that self2 conf1 by simp
    from set_execution_parameters_set [OF this, of ap] show ?thesis
      using res' rap self2 name1 by simp
  qed
  ultimately show ?thesis by blast
qed

text \<open>The deployment above, with the lookup answered by 404.\<close>

theorem lookup_refused_keeps_defaults_witness:
  "use_workspace demo_handler \<and>
   use_workspace demo_refused = False \<and>
   param demo_refused ''STAGEOUT_AWS_SERVICEURL'' = Inr (PStr ''http://s3-service.zoo.svc.cluster.local:9000'') \<and>
   param demo_refused ''STAGEOUT_AWS_ACCESS_KEY_ID'' = Inr (PStr ''minio-admin'') \<and>
   param demo_refused ''STAGEOUT_AWS_SECRET_ACCESS_KEY'' = Inr (PStr ''minio-secret-password'') \<and>
   param demo_refused ''STAGEOUT_AWS_REGION'' = Inr (PStr ''RegionOne'') \<and>
   param demo_refused ''STAGEOUT_OUTPUT'' = Inr (PStr ''eoepca'') \<and>
   param demo_refused ''STAGEOUT_PULSAR_URL'' = Inr (PStr ''pulsar://pulsar:6650'') \<and>
   param demo_refused ''STAGEOUT_WORKSPACE'' = Inr (PStr ''alice'') \<and>
   param demo_refused ''STAGEOUT_ACCESS_POINT'' = Inr (PStr ''ws-alice'')"
proof -
  let ?c = "\<lparr>request = Get ''https://workspace-api.example.org/workspaces/ws-alice''
                    [(''accept'', ''application/json''), (''Authorization'', ''Bearer token'')]
                    (Inr demo_not_found),
       http_proxy = None\<rparr>"
  have ready: "use_workspace demo_handler" and inv: "additional_parameters (conf demo_handler) \<noteq> None"
    using demo_handler_ready by simp_all
  have made: "?c \<in> set (calls_during demo_world
     (snd (snd (pre_execution_hook (demo_ext (Inr demo_not_found) (Inl ClientError)) demo_handler demo_world))))"
    by (simp add: demo_not_found_calls)
  have rq: "request ?c = Get ''https://workspace-api.example.org/workspaces/ws-alice''
                    [(''accept'', ''application/json''), (''Authorization'', ''Bearer token'')]
                    (Inr demo_not_found)"
    by simp
  have st: "400 \<le> status_code demo_not_found" "status_code demo_not_found < 600"
    by (simp_all add: demo_not_found_def)
  have before: "param demo_handler ''STAGEOUT_AWS_SERVICEURL'' = Inr (PStr ''http://s3-service.zoo.svc.cluster.local:9000'')"
    "param demo_handler ''STAGEOUT_AWS_ACCESS_KEY_ID'' = Inr (PStr ''minio-admin'')"
    "param demo_handler ''STAGEOUT_AWS_SECRET_ACCESS_KEY'' = Inr (PStr ''minio-secret-password'')"
    "param demo_handler ''STAGEOUT_AWS_REGION'' = Inr (PStr ''RegionOne'')"
    "param demo_handler ''STAGEOUT_OUTPUT'' = Inr (PStr ''eoepca'')"
    "param demo_handler ''STAGEOUT_PULSAR_URL'' = Inr (PStr ''pulsar://pulsar:6650'')"
    "workspace_name demo_handler = ''alice''"
    "fst (read_access_point (demo_ext (Inr demo_not_found) (Inl ClientError)) demo_handler
            (unset_http_proxy_env demo_world)) = Inr (PStr ''ws-alice'')"
    by code_simp+
  show ?thesis
    using ready inv before lookup_refused_keeps_defaults [OF ready made rq st]
    by (simp add: demo_refused_def)
qed

text \<open>
  The claim as first stated fails twice on the deployment above. With the lookup answered
  by 404, \<^verbatim>\<open>STAGEOUT_WORKSPACE\<close> and \<^verbatim>\<open>STAGEOUT_ACCESS_POINT\<close> do not keep their defaults.
  With the lookup answered by 304, a status outside 2xx for which \<^verbatim>\<open>Response.ok\<close> is
  true, the hook takes the branch that reads the body, raises on the empty body, and
  leaves \<open>use_workspace\<close> true.
\<close>

theorem stageout_defaults_counterexample:
  "use_workspace demo_handler \<and>
   \<lparr>request = Get ''https://workspace-api.example.org/workspaces/ws-alice''
                 [(''accept'', ''application/json''), (''Authorization'', ''Bearer token'')]
                 (Inr demo_not_found),
    http_proxy = None\<rparr>
     \<in> set (calls_during demo_world
              (snd (snd (pre_execution_hook (demo_ext (Inr demo_not_found) (Inl ClientError))
                           demo_handler demo_world)))) \<and>
   status_code demo_not_found = 404 \<and>
   param demo_handler ''STAGEOUT_WORKSPACE'' = Inr (PStr ''default'') \<and>
   param demo_refused ''STAGEOUT_WORKSPACE'' = Inr (PStr ''alice'') \<and>
   param demo_handler ''STAGEOUT_ACCESS_POINT'' = Inr PNone \<and>
   param demo_refused ''STAGEOUT_ACCESS_POINT'' = Inr (PStr ''ws-alice'') \<and>
   \<lparr>request = Get ''https://workspace-api.example.org/workspaces/ws-alice''
                 [(''accept'', ''application/json''), (''Authorization'', ''Bearer token'')]
                 (Inr demo_not_modified),
    http_proxy = None\<rparr>
     \<in> set (calls_during demo_world
              (snd (snd (pre_execution_hook (demo_ext (Inr demo_not_modified) (Inl ClientError))
                           demo_handler demo_world)))) \<and>
   status_code demo_not_modified = 304 \<and>
   fst (pre_execution_hook (demo_ext (Inr demo_not_modified) (Inl ClientError)) demo_handler demo_world)
     = Some JSONDecodeError \<and>
   use_workspace demo_unchanged"
proof -
  have "use_workspace demo_handler"
    "status_code demo_not_found = 404"
    "param demo_handler ''STAGEOUT_WORKSPACE'' = Inr (PStr ''default'')"
    "param demo_refused ''STAGEOUT_WORKSPACE'' = Inr (PStr ''alice'')"
    "param demo_handler ''STAGEOUT_ACCESS_POINT'' = Inr PNone"
    "param demo_refused ''STAGEOUT_ACCESS_POINT'' = Inr (PStr ''ws-alice'')"
    "status_code demo_not_modified = 304"
    "fst (pre_execution_hook (demo_ext (Inr demo_not_modified) (Inl ClientError)) demo_handler demo_world)
       = Some JSONDecodeError"
    "use_workspace demo_unchanged"
    by code_simp+
  then show ?thesis
    by (simp add: demo_not_found_calls demo_not_modified_calls)
qed

text \<open>
  Claim C4. When the workspace is configured and the lookup is answered with status 200
  and a body whose \<^verbatim>\<open>storage.credentials\<close> is an object, the hook leaves the five
  \<^verbatim>\<open>STAGEOUT_*\<close> credentials equal to the \<^verbatim>\<open>endpoint\<close>, \<^verbatim>\<open>access\<close>, \<^verbatim>\<open>secret\<close>,
  \<^verbatim>\<open>region\<close> and \<^verbatim>\<open>bucketname\<close> fields of that object (\<^verbatim>\<open>None\<close> for a field that is
  absent, as \<^verbatim>\<open>dict.get\<close> gives), and \<open>use_workspace\<close> true. The handler has its
  \<^verbatim>\<open>additional_parameters\<close> section, as every handler has since its constructor.
\<close>

theorem lookup_accepted_sets_credentials:
  assumes "use_workspace self"
      and "additional_parameters (conf self) \<noteq> None"
      and "c \<in> set (calls_during w (snd (snd (pre_execution_hook x self w))))"
      and "request c = Get url hdrs (Inr resp)"
      and "status_code resp = 200"
      and "json_body resp = Inr body"
      and "subscript body ''storage'' = Inr storage"
      and "subscript storage ''credentials'' = Inr (PDict creds)"
  shows "param (fst (snd (pre_execution_hook x self w))) ''STAGEOUT_AWS_SERVICEURL''
           = dot_get (PDict creds) ''endpoint'' \<and>
         param (fst (snd (pre_execution_hook x self w))) ''STAGEOUT_AWS_ACCESS_KEY_ID''
           = dot_get (PDict creds) ''access'' \<and>
         param (fst (snd (pre_execution_hook x self w))) ''STAGEOUT_AWS_SECRET_ACCESS_KEY''
           = dot_get (PDict creds) ''secret'' \<and>
         param (fst (snd (pre_execution_hook x self w))) ''STAGEOUT_AWS_REGION''
           = dot_get (PDict creds) ''region'' \<and>
         param (fst (snd (pre_execution_hook x self w))) ''STAGEOUT_OUTPUT''
           = dot_get (PDict creds) ''bucketname'' \<and>
         use_workspace (fst (snd (pre_execution_hook x self w)))"
proof -
  obtain ap self1 r2 self2 w1 w2 where
    dec: "decode_token x self = Inr self1" and
    look: "lookup_storage_details x self1 w1 = (r2, self2, w2)" and
    c: "c \<in> set (calls_during w1 w2)" and
    res: "fst (snd (pre_execution_hook x self w)) =
            (case r2 of Some e \<Rightarrow> self2 | None \<Rightarrow> snd (set_execution_parameters self2 ap))"
    using pre_execution_hook_get [OF assms(3,4)] by blast
  have conf1: "conf self1 = conf self"
    using decode_token_fields [OF dec] by simp
  obtain prm where prm: "additional_parameters (conf self1) = Some prm"
    using assms(2) conf1 by auto
  have "ok resp" using assms(5) by (simp add: ok_def)
  then have uw: "use_workspace self1"
    and copy: "(r2, self2) = copy_credentials credential_fields (PDict creds) self1"
    using lookup_storage_details_get [OF look c assms(4)] assms(6,7,8) by simp_all
  note copied = copy [unfolded copy_credentials_dict [OF prm]]
  have r2: "r2 = None" using copied by simp
  have res': "fst (snd (pre_execution_hook x self w)) = snd (set_execution_parameters self2 ap)"
    using res r2 by simp
  have "use_workspace (fst (snd (pre_execution_hook x self w)))"
    using res' copied uw by (simp add: set_execution_parameters_use_workspace)
  moreover have "param self2 ''STAGEOUT_AWS_SERVICEURL'' = dot_get (PDict creds) ''endpoint''"
    "param self2 ''STAGEOUT_AWS_ACCESS_KEY_ID'' = dot_get (PDict creds) ''access''"
    "param self2 ''STAGEOUT_AWS_SECRET_ACCESS_KEY'' = dot_get (PDict creds) ''secret''"
    "param self2 ''STAGEOUT_AWS_REGION'' = dot_get (PDict creds) ''region''"
    "param self2 ''STAGEOUT_OUTPUT'' = dot_get (PDict creds) ''bucketname''"
    using copied by (simp_all add: param_def dot_get_def split: option.splits)
  ultimately show ?thesis
    using res' by (simp add: set_execution_parameters_frame)
qed

theorem lookup_accepted_sets_credentials_witness:
  "use_workspace demo_handler \<and>
   param demo_prepared ''STAGEOUT_AWS_SERVICEURL'' = Inr (PStr ''https://minio.example.org'') \<and>
   param demo_prepared ''STAGEOUT_AWS_ACCESS_KEY_ID'' = Inr (PStr ''alice-key'') \<and>
   param demo_prepared ''STAGEOUT_AWS_SECRET_ACCESS_KEY'' = Inr (PStr ''alice-secret'') \<and>
   param demo_prepared ''STAGEOUT_AWS_REGION'' = Inr (PStr ''eu-west-2'') \<and>
   param demo_prepared ''STAGEOUT_OUTPUT'' = Inr (PStr ''ws-alice'') \<and>
   use_workspace demo_prepared"
proof -
  let ?c = "\<lparr>request = Get ''https://workspace-api.example.org/workspaces/ws-alice''
                    [(''accept'', ''application/json''), (''Authorization'', ''Bearer token'')]
                    (Inr demo_details),
       http_proxy = None\<rparr>"
  have ready: "use_workspace demo_handler" "additional_parameters (conf demo_handler) \<noteq> None"
    using demo_handler_ready by simp_all
  have made: "?c \<in> set (calls_during demo_world
     (snd (snd (pre_execution_hook (demo_ext (Inr demo_details) (Inl ClientError)) demo_handler demo_world))))"
    by (simp add: demo_details_calls)
  have rq: "request ?c = Get ''https://workspace-api.example.org/workspaces/ws-alice''
                    [(''accept'', ''application/json''), (''Authorization'', ''Bearer token'')]
                    (Inr demo_details)"
    by simp
  have st: "status_code demo_details = 200"
    and js: "json_body demo_details = Inr (PDict [(''storage'', PDict [(''credentials'', PDict demo_credentials)])])"
    by (simp_all add: demo_details_def)
  have s1: "subscript (PDict [(''storage'', PDict [(''credentials'', PDict demo_credentials)])]) ''storage''
              = Inr (PDict [(''credentials'', PDict demo_credentials)])"
    and s2: "subscript (PDict [(''credentials'', PDict demo_credentials)]) ''credentials'' = Inr (PDict demo_credentials)"
    by (simp_all add: subscript_def dict_get_def)
  show ?thesis
    using ready(1) lookup_accepted_sets_credentials [OF ready made rq st js s1 s2]
    by (simp add: demo_prepared_def dot_get_def dict_get_def demo_credentials_def)
qed

section \<open>The proxy setting around the hooks\<close>

lemma proxy_kept_refl: "proxy_kept w w"
  by (simp add: proxy_kept_def calls_during_def)

lemma proxy_kept_trans:
  assumes "proxy_kept w w1" and "proxy_kept w1 w2"
  shows "proxy_kept w w2"
proof -
  have c1: "calls w1 = calls w @ calls_during w w1"
    and e1: "environ w1 ''HTTP_PROXY'' = environ w ''HTTP_PROXY''"
    and p1: "\<forall>c\<in>set (calls_during w w1). http_proxy c = environ w ''HTTP_PROXY''"
    using assms(1) unfolding proxy_kept_def by blast+
  have c2: "calls w2 = calls w1 @ calls_during w1 w2"
    and e2: "environ w2 ''HTTP_PROXY'' = environ w1 ''HTTP_PROXY''"
    and p2: "\<forall>c\<in>set (calls_during w1 w2). http_proxy c = environ w1 ''HTTP_PROXY''"
    using assms(2) unfolding proxy_kept_def by blast+
  have t1: "calls_during w w2 = calls_during w w1 @ calls_during w1 w2"
    and t2: "calls w2 = calls w @ calls_during w w2"
    using calls_during_trans [OF c1 c2] by blast+
  have "\<forall>c\<in>set (calls_during w w2). http_proxy c = environ w ''HTTP_PROXY''"
    unfolding t1 using p1 p2 e1 by auto
  moreover have "environ w2 ''HTTP_PROXY'' = environ w ''HTTP_PROXY''"
    using e1 e2 by simp
  ultimately show ?thesis
    unfolding proxy_kept_def using t2 by blast
qed

lemma proxy_kept_log_call: "proxy_kept w (log_call rq w)"
  by (simp add: proxy_kept_def log_call_def calls_during_def)

lemma proxy_kept_cat: "proxy_kept w (w\<lparr>cat := c\<rparr>)"
  by (simp add: proxy_kept_def calls_during_def)

lemma proxy_kept_cls: "proxy_kept w (w\<lparr>cls_access_point := c\<rparr>)"
  by (simp add: proxy_kept_def calls_during_def)

lemma proxy_kept_read_access_point:
  "read_access_point x self w = (r, w1) \<Longrightarrow> proxy_kept w w1"
  by (auto simp: read_access_point_def log_call_def calls_during_def proxy_kept_def Let_def
           split: option.splits sum.splits if_splits)

lemma proxy_kept_lookup_storage_details:
  "lookup_storage_details x self w = (r, self', w1) \<Longrightarrow> proxy_kept w w1"
  by (auto simp: lookup_storage_details_def log_call_def calls_during_def proxy_kept_def Let_def
           split: option.splits sum.splits if_splits prod.splits)

lemma proxy_kept_export_env:
  "''HTTP_PROXY'' \<notin> fst ` set vars \<Longrightarrow> export_env vars self w = (r, w1) \<Longrightarrow> proxy_kept w w1"
proof (induction vars self w rule: export_env.induct)
  case (1 self w)
  then show ?case by (simp add: proxy_kept_refl)
next
  case (2 var k rest self w)
  show ?case
  proof (cases "param self k")
    case (Inl e)
    then show ?thesis using 2 by (simp add: proxy_kept_refl)
  next
    case (Inr v)
    show ?thesis
    proof (cases v)
      case (PStr s)
      have "var \<noteq> ''HTTP_PROXY''"
        using "2.prems"(1) by auto
      then have step: "proxy_kept w (w\<lparr>environ := (environ w)(var \<mapsto> s)\<rparr>)"
        by (simp add: proxy_kept_def calls_during_def)
      have "proxy_kept (w\<lparr>environ := (environ w)(var \<mapsto> s)\<rparr>) w1"
        using "2.IH" [OF Inr PStr] "2.prems" Inr PStr by simp
      with step show ?thesis by (rule proxy_kept_trans)
    qed (use 2 Inr in \<open>simp_all add: proxy_kept_refl\<close>)
  qed
qed

lemma proxy_kept_read_catalog: "proxy_kept w (read_catalog x outp w)"
  by (auto simp: read_catalog_def log_call_def calls_during_def proxy_kept_def Let_def
           split: option.splits sum.splits)

lemma proxy_kept_collection_from_items:
  "proxy_kept w (snd (collection_from_items self cid w))"
  by (simp add: collection_from_items_def Let_def proxy_kept_refl proxy_kept_cat
           split: sum.splits option.splits prod.splits)

lemma proxy_kept_consolidate: "proxy_kept w (snd (consolidate self cid w))"
proof (cases "first_collection (cat w)")
  case (Inr col)
  then show ?thesis by (simp add: consolidate_def proxy_kept_refl)
next
  case (Inl e)
  then have "snd (consolidate self cid w) = snd (collection_from_items self cid w)"
    by (simp add: consolidate_def split: prod.splits sum.splits)
  then show ?thesis by (simp add: proxy_kept_collection_from_items)
qed

lemma proxy_kept_register_collection:
  "proxy_kept w (snd (register_collection x self col d w))"
  by (auto simp: register_collection_def log_call_def calls_during_def proxy_kept_def Let_def
           split: option.splits sum.splits)

lemma cat_register_collection:
  "cat (snd (register_collection x self col d w)) = cat w"
  by (auto simp: register_collection_def log_call_def Let_def split: option.splits sum.splits)

lemma proxy_kept_publish: "proxy_kept w (snd (snd (publish x self cid col w)))"
  by (auto simp: publish_def Let_def proxy_kept_refl proxy_kept_register_collection
           split: option.splits prod.splits)
     (metis proxy_kept_register_collection snd_conv)

lemma proxy_kept_prepare:
  "proxy_kept (unset_http_proxy_env w) (snd (post_execution_prepare x self outp w))"
proof -
  have vars: "''HTTP_PROXY'' \<notin> fst ` set exported_variables"
    by (simp add: exported_variables_def)
  obtain r1 w1 where ex: "export_env exported_variables self (unset_http_proxy_env w) = (r1, w1)"
    by (cases "export_env exported_variables self (unset_http_proxy_env w)")
  note k1 = proxy_kept_export_env [OF vars ex]
  show ?thesis
    using k1 ex
    by (auto simp: post_execution_prepare_def Let_def
             split: option.splits sum.splits
             intro: proxy_kept_trans [OF k1] proxy_kept_cls
                    proxy_kept_trans [OF proxy_kept_cls proxy_kept_read_catalog])
qed

lemma copy_credentials_http_proxy_env:
  "copy_credentials fs creds s = (r, s') \<Longrightarrow> http_proxy_env s' = http_proxy_env s"
  using copy_credentials_fields [of fs creds s] by simp

lemma lookup_storage_details_http_proxy_env:
  "http_proxy_env (fst (snd (lookup_storage_details x s w))) = http_proxy_env s"
  by (auto simp: lookup_storage_details_def Let_def
           split: option.splits sum.splits prod.splits
           dest: copy_credentials_http_proxy_env)

lemma set_execution_parameters_http_proxy_env_snd:
  "http_proxy_env (snd (set_execution_parameters s a)) = http_proxy_env s"
  using set_params_frame [of "''x''"]
  by (simp add: set_execution_parameters_def Let_def del: set_params.simps)

lemma set_execution_parameters_http_proxy_env:
  "set_execution_parameters s a = (r, s') \<Longrightarrow> http_proxy_env s' = http_proxy_env s"
  using set_execution_parameters_http_proxy_env_snd [of s a] by simp

lemma environ_unset: "environ (unset_http_proxy_env w) ''HTTP_PROXY'' = None"
  by (simp add: unset_http_proxy_env_def)

lemma pre_execution_body_http_proxy_env:
  "http_proxy_env (fst (snd (pre_execution_body x self w))) = http_proxy_env self"
proof -
  obtain r1 w1 where rap: "read_access_point x self (unset_http_proxy_env w) = (r1, w1)"
    by (cases "read_access_point x self (unset_http_proxy_env w)")
  show ?thesis
  proof (cases r1)
    case (Inl e)
    then show ?thesis using rap by (simp add: pre_execution_body_def)
  next
    case (Inr ap)
    show ?thesis
    proof (cases "decode_token x self")
      case (Inl e)
      then show ?thesis using rap Inr by (simp add: pre_execution_body_def)
    next
      case self1: (Inr self1)
      obtain r2 self2 w2 where look: "lookup_storage_details x self1 w1 = (r2, self2, w2)"
        by (cases "lookup_storage_details x self1 w1")
      have "http_proxy_env self2 = http_proxy_env self"
        using lookup_storage_details_http_proxy_env [of x self1 w1] look
              decode_token_fields [OF self1] by simp
      then show ?thesis
        using rap Inr self1 look
        by (auto simp: pre_execution_body_def split: option.splits prod.splits
                 dest: set_execution_parameters_http_proxy_env)
    qed
  qed
qed

lemma proxy_kept_pre_execution_body:
  "proxy_kept (unset_http_proxy_env w) (snd (snd (pre_execution_body x self w)))"
proof -
  obtain r1 w1 where rap: "read_access_point x self (unset_http_proxy_env w) = (r1, w1)"
    by (cases "read_access_point x self (unset_http_proxy_env w)")
  note k1 = proxy_kept_read_access_point [OF rap]
  show ?thesis
  proof (cases r1)
    case (Inl e)
    then show ?thesis using rap k1 by (simp add: pre_execution_body_def)
  next
    case (Inr ap)
    show ?thesis
    proof (cases "decode_token x self")
      case (Inl e)
      then show ?thesis using rap Inr k1 by (simp add: pre_execution_body_def)
    next
      case self1: (Inr self1)
      obtain r2 self2 w2 where look: "lookup_storage_details x self1 w1 = (r2, self2, w2)"
        by (cases "lookup_storage_details x self1 w1")
      have "snd (snd (pre_execution_body x self w)) = w2"
        using rap Inr self1 look
        by (simp add: pre_execution_body_def split: option.splits prod.splits)
      then show ?thesis
        using proxy_kept_trans [OF k1 proxy_kept_lookup_storage_details [OF look]] by simp
    qed
  qed
qed

lemma post_execution_body_http_proxy_env:
  "http_proxy_env (fst (snd (post_execution_body x self outp w))) = http_proxy_env self"
  by (simp add: post_execution_body_def publish_def Let_def
           split: option.splits sum.splits prod.splits)

lemma proxy_kept_post_execution_body:
  "proxy_kept (unset_http_proxy_env w) (snd (snd (post_execution_body x self outp w)))"
proof -
  obtain r1 w1 where prep: "post_execution_prepare x self outp w = (r1, w1)"
    by (cases "post_execution_prepare x self outp w")
  have k1: "proxy_kept (unset_http_proxy_env w) w1"
    using proxy_kept_prepare [of w x self outp] prep by simp
  show ?thesis
  proof (cases r1)
    case (Inl e)
    then show ?thesis using prep k1 by (simp add: post_execution_body_def)
  next
    case (Inr cid)
    obtain col w2 where cons: "consolidate self cid w1 = (col, w2)"
      by (cases "consolidate self cid w1")
    have k2: "proxy_kept w1 w2"
      using proxy_kept_consolidate [of w1 self cid] cons by simp
    have "snd (snd (post_execution_body x self outp w)) = snd (snd (publish x self cid col w2))"
      using prep Inr cons by (simp add: post_execution_body_def)
    then show ?thesis
      using proxy_kept_trans [OF k1 proxy_kept_trans [OF k2 proxy_kept_publish]] by simp
  qed
qed

lemma environ_restore:
  "http_proxy_env s = Some v \<Longrightarrow> v \<noteq> [] \<Longrightarrow>
   environ (restore_http_proxy_env s w) ''HTTP_PROXY'' = Some v"
  by (simp add: restore_http_proxy_env_def)

lemma handler_http_proxy_env:
  "http_proxy_env (EoepcaCalrissianRunnerExecutionHandler env c ins) = env ''HTTP_PROXY''"
  by (simp add: EoepcaCalrissianRunnerExecutionHandler_def Let_def)

lemma pre_execution_hook_http_proxy_env:
  "http_proxy_env (fst (snd (pre_execution_hook x self w))) = http_proxy_env self"
  using pre_execution_body_http_proxy_env [of x self w]
  by (cases "pre_execution_body x self w") (auto simp: pre_execution_hook_def)

lemma hook_proxy_pre:
  assumes "http_proxy_env self = Some v" and "v \<noteq> []"
  shows "(\<forall>c\<in>set (calls_during w (snd (snd (pre_execution_hook x self w)))). http_proxy c = None) \<and>
         environ (snd (snd (pre_execution_hook x self w))) ''HTTP_PROXY'' = Some v"
proof -
  obtain r s wb where body: "pre_execution_body x self w = (r, s, wb)"
    by (cases "pre_execution_body x self w") auto
  have s: "http_proxy_env s = Some v"
    using pre_execution_body_http_proxy_env [of x self w] body assms(1) by simp
  have k: "proxy_kept (unset_http_proxy_env w) wb"
    using proxy_kept_pre_execution_body [of w x self] body by simp
  have res: "snd (snd (pre_execution_hook x self w)) = restore_http_proxy_env s wb"
    using body by (simp add: pre_execution_hook_def)
  have "\<forall>c\<in>set (calls_during w wb). http_proxy c = None"
    using k by (simp add: proxy_kept_def environ_unset)
  then show ?thesis
    using res environ_restore [OF s assms(2)] by simp
qed

lemma hook_proxy_post:
  assumes "http_proxy_env self = Some v" and "v \<noteq> []"
  shows "(\<forall>c\<in>set (calls_during w (snd (snd (post_execution_hook x self outp w)))). http_proxy c = None) \<and>
         environ (snd (snd (post_execution_hook x self outp w))) ''HTTP_PROXY'' = Some v"
proof -
  obtain r s wb where body: "post_execution_body x self outp w = (r, s, wb)"
    by (cases "post_execution_body x self outp w") auto
  have s: "http_proxy_env s = Some v"
    using post_execution_body_http_proxy_env [of x self outp w] body assms(1) by simp
  have k: "proxy_kept (unset_http_proxy_env w) wb"
    using proxy_kept_post_execution_body [of w x self outp] body by simp
  have res: "snd (snd (post_execution_hook x self outp w)) = restore_http_proxy_env s wb"
    using body by (simp add: post_execution_hook_def)
  have "\<forall>c\<in>set (calls_during w wb). http_proxy c = None"
    using k by (simp add: proxy_kept_def environ_unset)
  then show ?thesis
    using res environ_restore [OF s assms(2)] by simp
qed

text \<open>
  Claim C8, as amended. If \<^verbatim>\<open>HTTP_PROXY\<close> held a non-empty value when the handler was
  constructed, then in the pre-execution hook and in a post-execution hook that follows
  it, run in any world and with any outcome (the first component of the result is left
  open: the hook may return or raise), every call made to the outside sees \<^verbatim>\<open>HTTP_PROXY\<close>
  absent, and when the hook is left \<^verbatim>\<open>HTTP_PROXY\<close> has the value captured by the
  constructor.
\<close>

theorem http_proxy_restored:
  assumes "env ''HTTP_PROXY'' = Some v" and "v \<noteq> []"
  shows "(\<forall>c\<in>set (calls_during w
                    (snd (snd (pre_execution_hook x
                                 (EoepcaCalrissianRunnerExecutionHandler env c ins) w)))).
            http_proxy c = None) \<and>
         environ (snd (snd (pre_execution_hook x
                              (EoepcaCalrissianRunnerExecutionHandler env c ins) w)))
           ''HTTP_PROXY'' = Some v \<and>
         (\<forall>c\<in>set (calls_during w'
                    (snd (snd (post_execution_hook x'
                                 (fst (snd (pre_execution_hook x
                                              (EoepcaCalrissianRunnerExecutionHandler env c ins) w)))
                                 outp w')))).
            http_proxy c = None) \<and>
         environ (snd (snd (post_execution_hook x'
                              (fst (snd (pre_execution_hook x
                                           (EoepcaCalrissianRunnerExecutionHandler env c ins) w)))
                              outp w')))
           ''HTTP_PROXY'' = Some v"
proof -
  have h0: "http_proxy_env (EoepcaCalrissianRunnerExecutionHandler env c ins) = Some v"
    using assms(1) by (simp add: handler_http_proxy_env)
  have h1: "http_proxy_env (fst (snd (pre_execution_hook x
                                        (EoepcaCalrissianRunnerExecutionHandler env c ins) w))) = Some v"
    using h0 by (simp add: pre_execution_hook_http_proxy_env)
  show ?thesis
    using hook_proxy_pre [OF h0 assms(2)] hook_proxy_post [OF h1 assms(2)] by blast
qed

theorem http_proxy_restored_witness:
  "demo_env ''HTTP_PROXY'' = Some ''http://proxy:8080'' \<and>
   map http_proxy (calls_during demo_world
     (snd (snd (pre_execution_hook (demo_ext (Inr demo_details) (Inl ClientError)) demo_handler demo_world))))
     = [None, None, None] \<and>
   environ (snd (snd (pre_execution_hook (demo_ext (Inr demo_details) (Inl ClientError)) demo_handler demo_world)))
     ''HTTP_PROXY'' = Some ''http://proxy:8080'' \<and>
   map http_proxy (calls_during demo_world
     (snd (snd (post_execution_hook demo_ext_items demo_prepared demo_output demo_world))))
     = [None, None] \<and>
   fst (post_execution_hook demo_ext_items demo_prepared demo_output demo_world) = Some AttributeError \<and>
   environ (snd (snd (post_execution_hook demo_ext_items demo_prepared demo_output demo_world)))
     ''HTTP_PROXY'' = Some ''http://proxy:8080''"
proof -
  have set: "demo_env ''HTTP_PROXY'' = Some ''http://proxy:8080''"
    by (simp add: demo_env_def)
  have nonempty: "''http://proxy:8080'' \<noteq> []"
    by simp
  have shape: "map http_proxy (calls_during demo_world
     (snd (snd (pre_execution_hook (demo_ext (Inr demo_details) (Inl ClientError)) demo_handler demo_world))))
     = [None, None, None]"
    "map http_proxy (calls_during demo_world
     (snd (snd (post_execution_hook demo_ext_items demo_prepared demo_output demo_world))))
     = [None, None]"
    "fst (post_execution_hook demo_ext_items demo_prepared demo_output demo_world) = Some AttributeError"
    by code_simp+
  show ?thesis
    using set shape
      http_proxy_restored [of demo_env "''http://proxy:8080''" demo_world
        "demo_ext (Inr demo_details) (Inl ClientError)" demo_conf demo_inputs demo_world
        demo_ext_items demo_output, OF set nonempty]
    by (simp add: demo_handler_def demo_prepared_def)
qed

text \<open>
  The claim as first stated fails in two ways. A handler constructed and run while
  \<^verbatim>\<open>HTTP_PROXY\<close> is set to the empty string leaves the variable unset, because
  \<open>restore_http_proxy_env\<close> tests the truth value of the captured string. And a handler
  constructed while the variable was unset does not restore the value it finds set when
  the hook starts, because the value restored is the one captured by the constructor.
\<close>

theorem http_proxy_not_restored_counterexample:
  "environ (demo_world\<lparr>environ := [''HTTP_PROXY'' \<mapsto> []]\<rparr>) ''HTTP_PROXY'' = Some [] \<and>
   environ (snd (snd (pre_execution_hook (demo_ext (Inr demo_details) (Inl ClientError))
                        (EoepcaCalrissianRunnerExecutionHandler [''HTTP_PROXY'' \<mapsto> []] demo_conf demo_inputs)
                        (demo_world\<lparr>environ := [''HTTP_PROXY'' \<mapsto> []]\<rparr>))))
     ''HTTP_PROXY'' = None \<and>
   environ demo_world ''HTTP_PROXY'' = Some ''http://proxy:8080'' \<and>
   environ (snd (snd (pre_execution_hook (demo_ext (Inr demo_details) (Inl ClientError))
                        (EoepcaCalrissianRunnerExecutionHandler Map.empty demo_conf demo_inputs)
                        demo_world)))
     ''HTTP_PROXY'' = None"
  by code_simp

section \<open>The consolidated collection\<close>

lemma export_env_params:
  "export_env vars self w = (None, w1) \<Longrightarrow> (var, k) \<in> set vars \<Longrightarrow>
   \<exists>s. param self k = Inr (PStr s)"
proof (induction vars self w rule: export_env.induct)
  case (1 self w)
  then show ?case by simp
next
  case (2 var' k' rest self w)
  show ?case
  proof (cases "param self k'")
    case (Inl e)
    then show ?thesis using "2.prems" by simp
  next
    case (Inr v)
    show ?thesis
    proof (cases v)
      case (PStr s)
      show ?thesis
      proof (cases "(var, k) = (var', k')")
        case True
        then show ?thesis using Inr PStr by simp
      next
        case False
        then have "(var, k) \<in> set rest" using "2.prems"(2) by auto
        moreover have "export_env rest self (w\<lparr>environ := (environ w)(var' \<mapsto> s)\<rparr>) = (None, w1)"
          using "2.prems"(1) Inr PStr by simp
        ultimately show ?thesis using "2.IH" [OF Inr PStr] by simp
      qed
    qed (use "2.prems" Inr in simp_all)
  qed
qed

lemma prepare_params:
  assumes "fst (post_execution_prepare x self outp w) = Inr cid"
  shows "(\<exists>s. param self ''STAGEOUT_AWS_REGION'' = Inr (PStr s)) \<and>
         (\<exists>s. param self ''STAGEOUT_AWS_SERVICEURL'' = Inr (PStr s)) \<and>
         param self ''collection_id'' = Inr cid"
proof -
  obtain r1 w1 where ex: "export_env exported_variables self (unset_http_proxy_env w) = (r1, w1)"
    by (cases "export_env exported_variables self (unset_http_proxy_env w)")
  have r1: "r1 = None"
    using assms ex by (cases r1) (simp_all add: post_execution_prepare_def)
  have "(''AWS_REGION'', ''STAGEOUT_AWS_REGION'') \<in> set exported_variables"
       "(''AWS_S3_ENDPOINT'', ''STAGEOUT_AWS_SERVICEURL'') \<in> set exported_variables"
    by (simp_all add: exported_variables_def)
  then have "\<exists>s. param self ''STAGEOUT_AWS_REGION'' = Inr (PStr s)"
            "\<exists>s. param self ''STAGEOUT_AWS_SERVICEURL'' = Inr (PStr s)"
    using export_env_params [OF ex [unfolded r1]] by blast+
  moreover have "param self ''collection_id'' = Inr cid"
    using assms ex r1
    by (auto simp: post_execution_prepare_def Let_def split: sum.splits option.splits)
  ultimately show ?thesis by blast
qed

lemma post_execution_hook_prepared:
  assumes "fst (post_execution_prepare x self outp w) = Inr cid"
  shows "post_execution_hook x self outp w =
           (case publish x self cid
                   (fst (consolidate self cid (snd (post_execution_prepare x self outp w))))
                   (snd (consolidate self cid (snd (post_execution_prepare x self outp w)))) of
              (r, self', w') \<Rightarrow> (r, self', restore_http_proxy_env self' w'))"
  using assms
  by (cases "post_execution_prepare x self outp w")
     (simp add: post_execution_hook_def post_execution_body_def split: prod.splits)

lemma publish_some:
  "fst (snd (publish x self cid (Some col) w)) =
     self\<lparr>feature_collection := Some (PDict (dict_set (to_dict col) ''id'' cid))\<rparr> \<and>
   cat (snd (snd (publish x self cid (Some col) w))) = cat w"
  using cat_register_collection
  by (auto simp: publish_def Let_def split: prod.splits) (metis snd_conv)

lemma cat_restore [simp]: "cat (restore_http_proxy_env s w) = cat w"
  by (simp add: restore_http_proxy_env_def split: option.splits)

lemma post_execution_hook_published:
  assumes "fst (post_execution_prepare x self outp w) = Inr cid"
      and "fst (consolidate self cid (snd (post_execution_prepare x self outp w))) = Some col"
  shows "feature_collection (fst (snd (post_execution_hook x self outp w)))
           = Some (PDict (dict_set (to_dict col) ''id'' cid)) \<and>
         cat (snd (snd (post_execution_hook x self outp w)))
           = cat (snd (consolidate self cid (snd (post_execution_prepare x self outp w))))"
  using publish_some [of x self cid col
                         "snd (consolidate self cid (snd (post_execution_prepare x self outp w)))"]
  by (cases "publish x self cid (Some col)
               (snd (consolidate self cid (snd (post_execution_prepare x self outp w))))")
     (simp add: post_execution_hook_prepared [OF assms(1)] assms(2))

lemma demo_post_prepared:
  "fst (post_execution_prepare demo_ext_collection demo_prepared demo_output demo_world) = Inr (PStr ''run-1'')"
  "cat (snd (post_execution_prepare demo_ext_collection demo_prepared demo_output demo_world))
     = Some demo_catalog_with_collection"
  "fst (post_execution_prepare demo_ext_items demo_prepared demo_output demo_world) = Inr (PStr ''run-1'')"
  "cat (snd (post_execution_prepare demo_ext_items demo_prepared demo_output demo_world))
     = Some demo_catalog_with_items"
  by code_simp+

text \<open>
  Claim C2. Whenever the hook reaches the consolidation and that yields a collection,
  taken from the catalog or built from the items, the document stored in
  \<open>feature_collection\<close> is the serialised collection with its \<^verbatim>\<open>id\<close> set to
  \<^verbatim>\<open>conf["additional_parameters"]["collection_id"]\<close>, whatever \<^verbatim>\<open>id\<close> it carried.
\<close>

theorem feature_collection_id:
  assumes "fst (post_execution_prepare x self outp w) = Inr cid"
      and "fst (consolidate self cid (snd (post_execution_prepare x self outp w))) = Some col"
  shows "param self ''collection_id'' = Inr cid \<and>
         feature_collection (fst (snd (post_execution_hook x self outp w)))
           = Some (PDict (dict_set (to_dict col) ''id'' cid)) \<and>
         dict_get (dict_set (to_dict col) ''id'' cid) ''id'' = Some cid"
  using prepare_params [OF assms(1)] post_execution_hook_published [OF assms]
  by (simp add: dict_get_dict_set)

theorem feature_collection_id_witness:
  "fst (post_execution_prepare demo_ext_collection demo_prepared demo_output demo_world) = Inr (PStr ''run-1'') \<and>
   fst (consolidate demo_prepared (PStr ''run-1'')
          (snd (post_execution_prepare demo_ext_collection demo_prepared demo_output demo_world)))
     = Some (Collection demo_collection) \<and>
   dict_get (collection_dict demo_collection) ''id'' = Some (PStr ''from-catalog'') \<and>
   param demo_prepared ''collection_id'' = Inr (PStr ''run-1'') \<and>
   feature_collection (fst (snd (post_execution_hook demo_ext_collection demo_prepared demo_output demo_world)))
     = Some (PDict (dict_set (collection_dict demo_collection) ''id'' (PStr ''run-1''))) \<and>
   dict_get (dict_set (collection_dict demo_collection) ''id'' (PStr ''run-1'')) ''id'' = Some (PStr ''run-1'') \<and>
   fst (post_execution_prepare demo_ext_items demo_prepared demo_output demo_world) = Inr (PStr ''run-1'') \<and>
   fst (consolidate demo_prepared (PStr ''run-1'')
          (snd (post_execution_prepare demo_ext_items demo_prepared demo_output demo_world)))
     = Some (ItemCollection demo_items_annotated) \<and>
   feature_collection (fst (snd (post_execution_hook demo_ext_items demo_prepared demo_output demo_world)))
     = Some (PDict (dict_set (to_dict (ItemCollection demo_items_annotated)) ''id'' (PStr ''run-1''))) \<and>
   dict_get (dict_set (to_dict (ItemCollection demo_items_annotated)) ''id'' (PStr ''run-1'')) ''id''
     = Some (PStr ''run-1'')"
proof -
  have taken: "fst (consolidate demo_prepared (PStr ''run-1'')
          (snd (post_execution_prepare demo_ext_collection demo_prepared demo_output demo_world)))
     = Some (Collection demo_collection)"
    by code_simp
  have built: "fst (consolidate demo_prepared (PStr ''run-1'')
          (snd (post_execution_prepare demo_ext_items demo_prepared demo_output demo_world)))
     = Some (ItemCollection demo_items_annotated)"
    by code_simp
  have carried: "dict_get (collection_dict demo_collection) ''id'' = Some (PStr ''from-catalog'')"
    by code_simp
  show ?thesis
    using demo_post_prepared(1,3) taken built carried
      feature_collection_id [OF demo_post_prepared(1) taken]
      feature_collection_id [OF demo_post_prepared(3) built]
    by simp
qed

text \<open>
  Claim C7. When the catalog read by the hook yields a first collection, the document
  stored is the serialisation of that collection with the \<^verbatim>\<open>id\<close> entry overwritten:
  every other key keeps its value and the keys keep their order (\<^verbatim>\<open>id\<close> is appended when
  the collection had none). The catalog object, and so each of its items, is as it was
  read.
\<close>

theorem first_collection_taken:
  assumes "fst (post_execution_prepare x self outp w) = Inr cid"
      and "cat (snd (post_execution_prepare x self outp w)) = Some ct"
      and "all_collections ct = Inr (col # cols)"
  shows "feature_collection (fst (snd (post_execution_hook x self outp w)))
           = Some (PDict (dict_set (collection_dict col) ''id'' cid)) \<and>
         dict_get (dict_set (collection_dict col) ''id'' cid) ''id'' = Some cid \<and>
         (\<forall>k. k \<noteq> ''id'' \<longrightarrow>
              dict_get (dict_set (collection_dict col) ''id'' cid) k = dict_get (collection_dict col) k) \<and>
         map fst (dict_set (collection_dict col) ''id'' cid)
           = (if ''id'' \<in> fst ` set (collection_dict col) then map fst (collection_dict col)
              else map fst (collection_dict col) @ [''id'']) \<and>
         cat (snd (snd (post_execution_hook x self outp w))) = Some ct"
proof -
  have cons: "consolidate self cid (snd (post_execution_prepare x self outp w))
                = (Some (Collection col), snd (post_execution_prepare x self outp w))"
    using assms(2,3) by (simp add: consolidate_def first_collection_def)
  have keys: "map fst (dict_set d ''id'' cid)
           = (if ''id'' \<in> fst ` set d then map fst d else map fst d @ [''id''])" for d
    by (induction d) (fastforce simp: image_iff)+
  show ?thesis
    using post_execution_hook_published [OF assms(1), of "Collection col"] cons assms(2)
    by (simp add: dict_get_dict_set keys)
qed

theorem first_collection_taken_witness:
  "fst (post_execution_prepare demo_ext_collection demo_prepared demo_output demo_world) = Inr (PStr ''run-1'') \<and>
   all_collections demo_catalog_with_collection = Inr [demo_collection] \<and>
   feature_collection (fst (snd (post_execution_hook demo_ext_collection demo_prepared demo_output demo_world)))
     = Some (PDict [(''type'', PStr ''Collection''), (''id'', PStr ''run-1''),
                    (''description'', PStr ''results'')]) \<and>
   cat (snd (snd (post_execution_hook demo_ext_collection demo_prepared demo_output demo_world)))
     = Some demo_catalog_with_collection"
proof -
  have cols: "all_collections demo_catalog_with_collection = Inr (demo_collection # [])"
    by (simp add: demo_catalog_with_collection_def)
  show ?thesis
    using demo_post_prepared(1) cols
      first_collection_taken [OF demo_post_prepared(1,2) cols]
    by (simp add: demo_collection_def)
qed

section \<open>The collection built from items\<close>

lemma annotate_asset_ok:
  assumes "param self ''STAGEOUT_AWS_REGION'' = Inr region"
      and "param self ''STAGEOUT_AWS_SERVICEURL'' = Inr endpoint"
  shows "\<exists>new. annotate_asset self a = Inr new \<and> annotation_of region endpoint a new"
  using assms
  by (simp add: annotate_asset_def Let_def asset_from_dict_def storage_annotated_def
                annotation_of_def storage_keys_def dict_get_dict_set)

lemma annotation_of_trans:
  "annotation_of region endpoint a b \<Longrightarrow> annotation_of region endpoint b c \<Longrightarrow>
   annotation_of region endpoint a c"
  by (simp add: annotation_of_def)

lemma map_of_assets_put:
  "map_of (assets_put assts a v) k =
     (if k = a then map_option (\<lambda>_. v) (map_of assts k) else map_of assts k)"
  by (induction assts) (auto simp: assets_put_def)

lemma assets_loop_frame:
  assumes "param self ''STAGEOUT_AWS_REGION'' = Inr region"
      and "param self ''STAGEOUT_AWS_SERVICEURL'' = Inr endpoint"
  shows "assets_loop self ks assts = (None, assts') \<Longrightarrow> map_of assts k = Some a0 \<Longrightarrow>
         \<exists>a'. map_of assts' k = Some a' \<and>
              (if k \<in> set ks then annotation_of region endpoint a0 a' else a' = a0)"
proof (induction ks arbitrary: assts a0)
  case Nil
  then show ?case by simp
next
  case (Cons a ks)
  obtain old where old: "map_of assts a = Some old"
    using Cons.prems(1) by (cases "map_of assts a") simp_all
  obtain new where new: "annotate_asset self old = Inr new"
    and ann: "annotation_of region endpoint old new"
    using annotate_asset_ok [OF assms] by blast
  have loop: "assets_loop self ks (assets_put assts a new) = (None, assts')"
    using Cons.prems(1) old new by simp
  show ?case
  proof (cases "k = a")
    case True
    then have a0: "a0 = old" using Cons.prems(2) old by simp
    have "map_of (assets_put assts a new) k = Some new"
      using True old by (simp add: map_of_assets_put)
    from Cons.IH [OF loop this] obtain a' where
      a': "map_of assts' k = Some a'" and
      rel: "if k \<in> set ks then annotation_of region endpoint new a' else a' = new"
      by blast
    have "annotation_of region endpoint a0 a'"
    proof (cases "k \<in> set ks")
      case True
      then show ?thesis using rel ann a0 annotation_of_trans by metis
    next
      case False
      then show ?thesis using rel ann a0 by simp
    qed
    then show ?thesis using a' True by auto
  next
    case False
    then have "map_of (assets_put assts a new) k = Some a0"
      using Cons.prems(2) by (simp add: map_of_assets_put)
    from Cons.IH [OF loop this] show ?thesis using False by simp
  qed
qed

lemma assets_put_keys: "map fst (assets_put assts a v) = map fst assts"
  by (induction assts) (auto simp: assets_put_def)

lemma assets_put_entries:
  "(k, v') \<in> set (assets_put assts a v) \<Longrightarrow>
     (k = a \<and> v' = v) \<or> (k \<noteq> a \<and> (k, v') \<in> set assts)"
  by (induction assts) (auto simp: assets_put_def split: if_splits)

lemma assets_loop_ok:
  assumes "param self ''STAGEOUT_AWS_REGION'' = Inr region"
      and "param self ''STAGEOUT_AWS_SERVICEURL'' = Inr endpoint"
  shows "set ks \<subseteq> set (map fst assts) \<Longrightarrow>
         \<exists>assts'. assets_loop self ks assts = (None, assts') \<and>
                  map fst assts' = map fst assts \<and>
                  (\<forall>(k, v)\<in>set assts'. storage_annotated region endpoint v \<or>
                                        ((k, v) \<in> set assts \<and> k \<notin> set ks))"
proof (induction ks arbitrary: assts)
  case Nil
  then show ?case by auto
next
  case (Cons a ks)
  from Cons.prems have "a \<in> fst ` set assts" by simp
  then obtain old where old: "map_of assts a = Some old"
    by (metis map_of_eq_None_iff option.exhaust)
  obtain new where new: "annotate_asset self old = Inr new"
    and ann: "storage_annotated region endpoint new"
    using annotate_asset_ok [OF assms] by (auto simp: annotation_of_def)
  let ?assts1 = "assets_put assts a new"
  have "set ks \<subseteq> set (map fst ?assts1)"
    using Cons.prems by (simp add: assets_put_keys)
  from Cons.IH [OF this] obtain assts' where
    loop: "assets_loop self ks ?assts1 = (None, assts')" and
    keys: "map fst assts' = map fst ?assts1" and
    ents: "\<forall>(k, v)\<in>set assts'. storage_annotated region endpoint v \<or>
                               ((k, v) \<in> set ?assts1 \<and> k \<notin> set ks)"
    by blast
  have "\<forall>(k, v)\<in>set assts'. storage_annotated region endpoint v \<or>
                             ((k, v) \<in> set assts \<and> k \<notin> set (a # ks))"
    using ents ann assets_put_entries [of _ _ assts a new] by fastforce
  then show ?case
    using old new loop keys by (simp add: assets_put_keys)
qed

lemma assets_loop_all:
  assumes "param self ''STAGEOUT_AWS_REGION'' = Inr region"
      and "param self ''STAGEOUT_AWS_SERVICEURL'' = Inr endpoint"
  shows "\<exists>assts'. assets_loop self (map fst assts) assts = (None, assts') \<and>
                  map fst assts' = map fst assts \<and>
                  (\<forall>(k, v)\<in>set assts'. storage_annotated region endpoint v)"
proof -
  obtain assts' where
    loop: "assets_loop self (map fst assts) assts = (None, assts')" and
    keys: "map fst assts' = map fst assts" and
    ents: "\<forall>(k, v)\<in>set assts'. storage_annotated region endpoint v \<or>
                               ((k, v) \<in> set assts \<and> k \<notin> set (map fst assts))"
    using assets_loop_ok [OF assms, of "map fst assts" assts] by blast
  have "\<forall>(k, v)\<in>set assts'. storage_annotated region endpoint v"
    using ents by force
  then show ?thesis using loop keys by blast
qed

lemma items_loop_ok:
  assumes "param self ''STAGEOUT_AWS_REGION'' = Inr region"
      and "param self ''STAGEOUT_AWS_SERVICEURL'' = Inr endpoint"
  shows "\<exists>items'. items_loop self cid items = (None, items', map clone items') \<and>
                  list_all2 (restamped cid region endpoint) items items'"
proof (induction items)
  case Nil
  then show ?case by simp
next
  case (Cons i items)
  obtain assts' where
    loop: "assets_loop self (map fst (assets i)) (assets i) = (None, assts')" and
    keys: "map fst assts' = map fst (assets i)" and
    ents: "\<forall>(k, v)\<in>set assts'. storage_annotated region endpoint v"
    using assets_loop_all [OF assms, of "assets i"] by blast
  obtain items' where
    rest: "items_loop self cid items = (None, items', map clone items')" and
    all: "list_all2 (restamped cid region endpoint) items items'"
    using Cons.IH by blast
  let ?i' = "i\<lparr>assets := assts', collection_id := cid\<rparr>"
  have "\<exists>a'. map_of assts' k = Some a' \<and> annotation_of region endpoint a a'"
    if "map_of (assets i) k = Some a" for k a
  proof -
    have "k \<in> set (map fst (assets i))"
      using that by (metis map_of_SomeD set_zip_leftD zip_map_fst_snd)
    then show ?thesis
      using assets_loop_frame [OF assms loop that] by simp
  qed
  then have "restamped cid region endpoint i ?i'"
    using keys ents by (simp add: restamped_def)
  then show ?case
    using loop rest all by (simp add: Let_def)
qed

text \<open>
  Claim C6, as amended. When the catalog read by the hook yields no collection but yields
  items, and the item sequence ends without raising, the consolidated collection is made
  of one clone per item, in order. The items of the catalog themselves have been changed
  before cloning: each has the supplied collection id and the same asset keys as before,
  and under each key the asset it had, with its own entries kept and the five storage
  entries set, region and endpoint being those of the active \<^verbatim>\<open>STAGEOUT\<close> credentials.
\<close>

theorem collection_from_items_annotated:
  assumes "fst (post_execution_prepare x self outp w) = Inr cid"
      and "cat (snd (post_execution_prepare x self outp w)) = Some ct"
      and "first_collection (Some ct) = Inl e"
      and "all_items ct \<noteq> []"
      and "all_items_raises ct = None"
  shows "\<exists>items region endpoint.
           param self ''STAGEOUT_AWS_REGION'' = Inr region \<and>
           param self ''STAGEOUT_AWS_SERVICEURL'' = Inr endpoint \<and>
           list_all2 (restamped cid region endpoint) (all_items ct) items \<and>
           cat (snd (snd (post_execution_hook x self outp w))) = Some (ct\<lparr>all_items := items\<rparr>) \<and>
           fst (consolidate self cid (snd (post_execution_prepare x self outp w)))
             = Some (ItemCollection (map clone items)) \<and>
           feature_collection (fst (snd (post_execution_hook x self outp w)))
             = Some (PDict (dict_set (to_dict (ItemCollection (map clone items))) ''id'' cid))"
proof -
  obtain region endpoint where
    region: "param self ''STAGEOUT_AWS_REGION'' = Inr region" and
    endpoint: "param self ''STAGEOUT_AWS_SERVICEURL'' = Inr endpoint"
    using prepare_params [OF assms(1)] by blast
  obtain items where
    loop: "items_loop self cid (all_items ct) = (None, items, map clone items)" and
    all: "list_all2 (restamped cid region endpoint) (all_items ct) items"
    using items_loop_ok [OF region endpoint] by blast
  let ?w1 = "snd (post_execution_prepare x self outp w)"
  have cons: "consolidate self cid ?w1
                = (Some (ItemCollection (map clone items)), ?w1\<lparr>cat := Some (ct\<lparr>all_items := items\<rparr>)\<rparr>)"
    using assms(2,3,5) loop
    by (simp add: consolidate_def collection_from_items_def Let_def clone_def)
  show ?thesis
    using post_execution_hook_published [OF assms(1), of "ItemCollection (map clone items)"]
          cons region endpoint all
    by auto
qed

theorem collection_from_items_annotated_witness:
  "fst (post_execution_prepare demo_ext_items demo_prepared demo_output demo_world) = Inr (PStr ''run-1'') \<and>
   cat (snd (post_execution_prepare demo_ext_items demo_prepared demo_output demo_world))
     = Some demo_catalog_with_items \<and>
   first_collection (Some demo_catalog_with_items) = Inl StopIteration \<and>
   all_items demo_catalog_with_items = [demo_item ''a'', demo_item ''b''] \<and>
   all_items_raises demo_catalog_with_items = None \<and>
   (\<exists>items region endpoint.
      param demo_prepared ''STAGEOUT_AWS_REGION'' = Inr region \<and>
      param demo_prepared ''STAGEOUT_AWS_SERVICEURL'' = Inr endpoint \<and>
      list_all2 (restamped (PStr ''run-1'') region endpoint) (all_items demo_catalog_with_items) items \<and>
      cat (snd (snd (post_execution_hook demo_ext_items demo_prepared demo_output demo_world)))
        = Some (demo_catalog_with_items\<lparr>all_items := items\<rparr>) \<and>
      fst (consolidate demo_prepared (PStr ''run-1'')
             (snd (post_execution_prepare demo_ext_items demo_prepared demo_output demo_world)))
        = Some (ItemCollection (map clone items)) \<and>
      feature_collection (fst (snd (post_execution_hook demo_ext_items demo_prepared demo_output demo_world)))
        = Some (PDict (dict_set (to_dict (ItemCollection (map clone items))) ''id'' (PStr ''run-1'')))) \<and>
   fst (consolidate demo_prepared (PStr ''run-1'')
          (snd (post_execution_prepare demo_ext_items demo_prepared demo_output demo_world)))
     = Some (ItemCollection demo_items_annotated)"
proof -
  have none: "first_collection (Some demo_catalog_with_items) = Inl StopIteration"
    by code_simp
  have some: "all_items demo_catalog_with_items \<noteq> []"
    and these: "all_items demo_catalog_with_items = [demo_item ''a'', demo_item ''b'']"
    and ends: "all_items_raises demo_catalog_with_items = None"
    by (simp_all add: demo_catalog_with_items_def)
  have built: "fst (consolidate demo_prepared (PStr ''run-1'')
          (snd (post_execution_prepare demo_ext_items demo_prepared demo_output demo_world)))
     = Some (ItemCollection demo_items_annotated)"
    by code_simp
  show ?thesis
    using demo_post_prepared(3,4) none these ends built
      collection_from_items_annotated [OF demo_post_prepared(3,4) none some ends]
    by simp
qed

text \<open>
  The claim as first stated fails when the item sequence raises after yielding: the
  \<^verbatim>\<open>except Exception\<close> clause around the loop swallows the exception, \<^verbatim>\<open>collection\<close> stays
  \<^verbatim>\<open>None\<close>, and the hook stores \<^verbatim>\<open>{}\<close> and returns, although the catalog yielded an item
  (which the loop has already changed).
\<close>

theorem items_then_raise_counterexample:
  "fst (post_execution_prepare demo_ext_interrupted demo_prepared demo_output demo_world)
     = Inr (PStr ''run-1'') \<and>
   cat (snd (post_execution_prepare demo_ext_interrupted demo_prepared demo_output demo_world))
     = Some demo_catalog_interrupted \<and>
   first_collection (Some demo_catalog_interrupted) = Inl StopIteration \<and>
   all_items demo_catalog_interrupted = [demo_item ''a''] \<and>
   fst (post_execution_hook demo_ext_interrupted demo_prepared demo_output demo_world) = None \<and>
   feature_collection
     (fst (snd (post_execution_hook demo_ext_interrupted demo_prepared demo_output demo_world)))
     = Some (PDict []) \<and>
   cat (snd (snd (post_execution_hook demo_ext_interrupted demo_prepared demo_output demo_world)))
     = Some (demo_catalog_interrupted\<lparr>all_items := [demo_annotated ''a'']\<rparr>)"
  by code_simp

section \<open>A catalog without collections and items\<close>

lemma publish_none:
  "publish x self cid None w = (None, self\<lparr>feature_collection := Some (PDict [])\<rparr>, w)"
  by (simp add: publish_def)

lemma no_collection_gives_empty_object:
  assumes "fst (post_execution_prepare x self outp w) = Inr cid"
      and "fst (consolidate self cid (snd (post_execution_prepare x self outp w))) = None"
  shows "fst (post_execution_hook x self outp w) = None \<and>
         feature_collection (fst (snd (post_execution_hook x self outp w))) = Some (PDict []) \<and>
         calls (snd (snd (post_execution_hook x self outp w)))
           = calls (snd (post_execution_prepare x self outp w))"
proof -
  have "calls (snd (consolidate self cid (snd (post_execution_prepare x self outp w))))
          = calls (snd (post_execution_prepare x self outp w))"
    using proxy_kept_consolidate [of "snd (post_execution_prepare x self outp w)" self cid]
    by (auto simp: consolidate_def collection_from_items_def Let_def
             split: sum.splits option.splits prod.splits)
  then show ?thesis
    by (simp add: post_execution_hook_prepared [OF assms(1)] assms(2) publish_none)
qed

text \<open>
  Claim C1, evaluated on the deployment above with a catalog that yields no collection
  and no item. The item loop runs zero times and \<^verbatim>\<open>ItemCollection(items=[])\<close> is not
  \<^verbatim>\<open>None\<close>, so the guard \<^verbatim>\<open>collection is None\<close> lets it through: the document stored is a
  feature collection without features, not \<^verbatim>\<open>{}\<close>, and the second call of the hook, after
  reading the catalog, is the \<^verbatim>\<open>register-json\<close> request.
\<close>

theorem empty_catalog_registered:
  "cat (snd (post_execution_prepare demo_ext_empty demo_prepared demo_output demo_world))
     = Some demo_catalog_empty \<and>
   all_collections demo_catalog_empty = Inr [] \<and>
   all_items demo_catalog_empty = [] \<and>
   all_items_raises demo_catalog_empty = None \<and>
   use_workspace demo_prepared \<and>
   feature_collection (fst (snd (post_execution_hook demo_ext_empty demo_prepared demo_output demo_world)))
     = Some (PDict [(''type'', PStr ''FeatureCollection''), (''features'', PList []),
                    (''id'', PStr ''run-1'')]) \<and>
   map (\<lambda>c. is_post (request c))
     (calls_during demo_world
        (snd (snd (post_execution_hook demo_ext_empty demo_prepared demo_output demo_world))))
     = [False, True]"
  by code_simp

end
